theory Spec2Isabelle
  imports Complex_Main
begin

section \<open>Python runtime: exceptions, lists, random draws\<close>

text \<open>
  Exceptions of the Python runtime that the modelled code can raise. A function that may
  raise returns \<open>py_error + 'a\<close>, with \<open>Inl\<close> for the exception.
\<close>

datatype py_error = KeyError | ValueError | IndexError

text \<open>\<^verbatim>\<open>xs.remove(x)\<close>: drops the first occurrence, raises ValueError when there is none.\<close>

definition list_remove :: "'a \<Rightarrow> 'a list \<Rightarrow> py_error + 'a list" where
  "list_remove x xs = (if x \<in> set xs then Inr (remove1 x xs) else Inl ValueError)"

text \<open>
  The random generator is made explicit: every draw takes the raw number \<open>r\<close> the
  generator produced. \<^verbatim>\<open>random.choice(seq)\<close> is \<^verbatim>\<open>seq[randbelow(len(seq))]\<close> and raises
  IndexError on an empty sequence; \<^verbatim>\<open>random.randint(a, b)\<close> is \<^verbatim>\<open>a + randbelow(b - a + 1)\<close>.
  Every index below \<open>n\<close> is the image of exactly one \<open>r < n\<close>, so a uniform \<open>r\<close> gives a
  uniform draw.
\<close>

definition randbelow :: "nat \<Rightarrow> nat \<Rightarrow> nat" where
  "randbelow r n = r mod n"

definition random_choice :: "nat \<Rightarrow> 'a list \<Rightarrow> py_error + 'a" where
  "random_choice r xs = (if xs = [] then Inl IndexError else Inr (xs ! randbelow r (length xs)))"

definition random_randint :: "nat \<Rightarrow> int \<Rightarrow> int \<Rightarrow> int" where
  "random_randint r a b = a + int (randbelow r (nat (b - a + 1)))"

section \<open>Python floats\<close>

text \<open>
  A finite float is the rational number it stands for, and every float operation is the
  exact operation followed by \<open>round_double\<close>, the rounding of IEEE 754 binary64 to the
  nearest representable number, ties to the even significand, with gradual underflow
  below 2 to the power -1022. Results beyond the largest finite double (an infinity in Python) are
  outside the model; the percentages and thresholds computed here are far from it.
\<close>

function bit_length :: "int \<Rightarrow> int" where
  "bit_length n = (if n \<le> 0 then 0 else 1 + bit_length (n div 2))"
  by pat_completeness auto
termination
  by (relation "measure nat") auto

definition pow2 :: "int \<Rightarrow> rat" where
  "pow2 e = (if 0 \<le> e then 2 ^ nat e else 1 / 2 ^ nat (- e))"

text \<open>The exponent \<open>e\<close> of a positive rational \<open>x\<close>: \<open>pow2 e \<le> x < pow2 (e + 1)\<close>.\<close>

definition floor_log2 :: "rat \<Rightarrow> int" where
  "floor_log2 x =
     (case quotient_of x of
        (p, q) \<Rightarrow>
          (let d = bit_length p - bit_length q
           in if pow2 d \<le> x then d else d - 1))"

definition round_half_even :: "rat \<Rightarrow> int" where
  "round_half_even m =
     (let f = \<lfloor>m\<rfloor>; r = m - of_int f
      in if r < 1 / 2 then f else if 1 / 2 < r then f + 1 else if even f then f else f + 1)"

definition round_double :: "rat \<Rightarrow> rat" where
  "round_double x =
     (if x = 0 then 0
      else (let a = \<bar>x\<bar>; e = max (floor_log2 a) (- 1022); u = pow2 (e - 52)
            in sgn x * of_int (round_half_even (a / u)) * u))"

section \<open>loop\_manager.py\<close>

record LoopManager =
  actions_until_supernova :: int
  current_actions :: int
  loop_count :: int
  is_first_loop :: bool
  minutes_per_action :: int
  cavern_has_collapsed :: bool

text \<open>\<^verbatim>\<open>LoopManager.__init__\<close> (the console and the visualizer only print).\<close>

definition LoopManager_init :: "int \<Rightarrow> LoopManager" where
  "LoopManager_init n =
     \<lparr>actions_until_supernova = n, current_actions = 0, loop_count = 1,
      is_first_loop = True, minutes_per_action = 1, cavern_has_collapsed = False\<rparr>"

text \<open>
  What \<^verbatim>\<open>increment_action\<close> returns: the strings \<^verbatim>\<open>"quantum_cavern_collapse"\<close> and
  \<^verbatim>\<open>"supernova"\<close>, or \<^verbatim>\<open>False\<close>.
\<close>

datatype signal = QuantumCavernCollapse | Supernova | NoSignal

text \<open>
  \<^verbatim>\<open>LoopManager.increment_action\<close>. The warning at \<open>actions_until_supernova - 4\<close> only
  prints a panel and changes no state, so it does not appear in the result.
\<close>

definition increment_action :: "LoopManager \<Rightarrow> int \<Rightarrow> signal \<times> LoopManager" where
  "increment_action lm action_cost =
     (let lm1 = lm\<lparr>current_actions := current_actions lm + action_cost\<rparr> in
      if current_actions lm1 = 14 \<and> \<not> cavern_has_collapsed lm1
      then (QuantumCavernCollapse, lm1\<lparr>cavern_has_collapsed := True\<rparr>)
      else if current_actions lm1 \<ge> actions_until_supernova lm1
      then (Supernova, lm1)
      else (NoSignal, lm1))"

text \<open>A sequence of \<^verbatim>\<open>increment_action\<close> calls within one loop, with the signal of each call.\<close>

fun increment_actions :: "LoopManager \<Rightarrow> int list \<Rightarrow> signal list \<times> LoopManager" where
  "increment_actions lm [] = ([], lm)"
| "increment_actions lm (c # cs) =
     (let (s, lm1) = increment_action lm c;
          (ss, lm2) = increment_actions lm1 cs
      in (s # ss, lm2))"

section \<open>Python strings\<close>

text \<open>
  Strings are lists of 8-bit characters, read as the code points 0 to 255.
  \<^verbatim>\<open>str.isspace\<close> holds there for tab to carriage return, the four separators
  0x1C to 0x1F, the space, 0x85 and 0xA0; \<^verbatim>\<open>str.lower\<close> moves A to Z and the
  upper-case letters 0xC0 to 0xDE (without the multiplication sign 0xD7) up by 32.
\<close>

definition is_space :: "char \<Rightarrow> bool" where
  "is_space c =
     (let n = (of_char c :: nat)
      in (9 \<le> n \<and> n \<le> 13) \<or> (28 \<le> n \<and> n \<le> 32) \<or> n = 133 \<or> n = 160)"

definition lower_char :: "char \<Rightarrow> char" where
  "lower_char c =
     (let n = (of_char c :: nat)
      in if (65 \<le> n \<and> n \<le> 90) \<or> (192 \<le> n \<and> n \<le> 222 \<and> n \<noteq> 215)
         then char_of (n + 32) else c)"

definition py_lower :: "string \<Rightarrow> string" where
  "py_lower s = map lower_char s"

definition py_strip :: "string \<Rightarrow> string" where
  "py_strip s = rev (dropWhile is_space (rev (dropWhile is_space s)))"

section \<open>quantum\_navigation.py\<close>

record QuantumNavigator =
  nav_current_location :: string
  has_visited_platform :: bool

definition QuantumNavigator_init :: QuantumNavigator where
  "QuantumNavigator_init = \<lparr>nav_current_location = ''platform'', has_visited_platform = False\<rparr>"

text \<open>
  The table \<^verbatim>\<open>self.locations\<close>: for each of the five locations its display name and its
  \<^verbatim>\<open>stable_path\<close>. The \<^verbatim>\<open>description\<close> and \<^verbatim>\<open>observations\<close> texts are only printed
  (every location has all four observations, so their lookup never fails) and are left out.
\<close>

record NavLocation =
  nl_name :: string
  stable_path :: "(string \<times> string) list"

definition nav_locations :: "(string \<times> NavLocation) list" where
  "nav_locations =
     [(''platform'', \<lparr>nl_name = ''Weathered Stone Platform'', stable_path = [(''east'', ''crystals'')]\<rparr>),
      (''crystals'', \<lparr>nl_name = ''Singing Crystal Field'', stable_path = [(''west'', ''tree'')]\<rparr>),
      (''tree'', \<lparr>nl_name = ''Ancient Tree Grove'', stable_path = [(''north'', ''arch'')]\<rparr>),
      (''arch'', \<lparr>nl_name = ''Prismatic Archway'', stable_path = [(''south'', ''convergence'')]\<rparr>),
      (''convergence'', \<lparr>nl_name = ''Quantum Convergence'', stable_path = []\<rparr>)]"

definition reset_navigation :: "QuantumNavigator \<Rightarrow> QuantumNavigator" where
  "reset_navigation nav = nav\<lparr>nav_current_location := ''platform''\<rparr>"

definition is_at_grove :: "QuantumNavigator \<Rightarrow> bool" where
  "is_at_grove nav = (nav_current_location nav = ''grove'')"

text \<open>The results are the tuples \<^verbatim>\<open>(success, message, reached_grove)\<close> with the new state.\<close>

type_synonym nav_result = "(bool \<times> string \<times> bool) \<times> QuantumNavigator"

definition reach_grove :: "QuantumNavigator \<Rightarrow> nav_result" where
  "reach_grove nav =
     ((True, ''You've reached Solanum's Grove!'', True), nav\<lparr>nav_current_location := ''grove''\<rparr>)"

definition close_eyes_reset :: "QuantumNavigator \<Rightarrow> nav_result" where
  "close_eyes_reset nav =
     (if nav_current_location nav = ''convergence'' then reach_grove nav
      else ((True, ''You close your eyes. When you open them, you're back at the weathered platform.'', False),
            nav\<lparr>has_visited_platform := True, nav_current_location := ''platform''\<rparr>))"

definition direction_map :: "(string \<times> string) list" where
  "direction_map =
     [(''look east'', ''east''), (''east'', ''east''),
      (''look west'', ''west''), (''west'', ''west''),
      (''look north'', ''north''), (''north'', ''north''),
      (''look south'', ''south''), (''south'', ''south''),
      (''close eyes'', ''close eyes'')]"

text \<open>
  \<^verbatim>\<open>QuantumNavigator.observe_direction\<close>, with the raw number \<open>r\<close> of the one random draw
  it may make. The subscripts \<^verbatim>\<open>self.locations[...]\<close> raise KeyError on a missing key and
  \<^verbatim>\<open>possible_locations.remove\<close> raises ValueError on a missing element.
\<close>

definition observe_direction :: "QuantumNavigator \<Rightarrow> string \<Rightarrow> nat \<Rightarrow> py_error + nav_result" where
  "observe_direction nav direction r =
     (let direction_clean = py_strip (py_lower direction) in
      case map_of direction_map direction_clean of
        None \<Rightarrow> Inr ((False, ''Invalid direction.'', False), nav)
      | Some canonical_dir \<Rightarrow>
          if is_at_grove nav then Inr ((True, ''You're already at the grove.'', True), nav)
          else if canonical_dir = ''close eyes'' then Inr (close_eyes_reset nav)
          else
            (case map_of nav_locations (nav_current_location nav) of
               None \<Rightarrow> Inl KeyError
             | Some loc_info \<Rightarrow>
                 (case map_of (stable_path loc_info) canonical_dir of
                    Some next_location \<Rightarrow>
                      (case map_of nav_locations next_location of
                         None \<Rightarrow> Inl KeyError
                       | Some next_info \<Rightarrow>
                           Inr ((True,
                                 ''The quantum waveform shifts. You find yourself at: '' @ nl_name next_info,
                                 False),
                                nav\<lparr>nav_current_location := next_location\<rparr>))
                  | None \<Rightarrow>
                      (case list_remove (nav_current_location nav)
                              [''platform'', ''crystals'', ''tree'', ''arch''] of
                         Inl e \<Rightarrow> Inl e
                       | Inr possible_locations \<Rightarrow>
                           (case random_choice r possible_locations of
                              Inl e \<Rightarrow> Inl e
                            | Inr random_location \<Rightarrow>
                                (case map_of nav_locations random_location of
                                   None \<Rightarrow> Inl KeyError
                                 | Some random_info \<Rightarrow>
                                     Inr ((True, ''Quantum teleport to '' @ nl_name random_info, False),
                                          nav\<lparr>nav_current_location := random_location,
                                              has_visited_platform :=
                                                (random_location = ''platform'' \<or> has_visited_platform nav)\<rparr>)))))))"

section \<open>The location data (content/data/locations.json)\<close>

text \<open>
  A Python dict whose iteration order is used is an association list read with
  \<open>map_of\<close>; \<^verbatim>\<open>d[k] = v\<close> keeps the position of a key that is present and appends a new
  one. A key of a JSON object that the code reads with \<^verbatim>\<open>.get(key, default)\<close> is an
  optional field; \<^verbatim>\<open>d[key]\<close> on an absent key raises KeyError.
\<close>

fun dict_set :: "'k \<Rightarrow> 'v \<Rightarrow> ('k \<times> 'v) list \<Rightarrow> ('k \<times> 'v) list" where
  "dict_set k v [] = [(k, v)]"
| "dict_set k v ((k', v') # kvs) =
     (if k' = k then (k, v) # kvs else (k', v') # dict_set k v kvs)"

definition subscript :: "'a option \<Rightarrow> py_error + 'a" where
  "subscript x = (case x of None \<Rightarrow> Inl KeyError | Some v \<Rightarrow> Inr v)"

definition get_default :: "'a option \<Rightarrow> 'a \<Rightarrow> 'a" where
  "get_default x d = (case x of None \<Rightarrow> d | Some v \<Rightarrow> v)"

text \<open>
  The dict of one entry, with every key the code reads. The number
  \<^verbatim>\<open>requires_exploration_percentage\<close> is the decimal literal of the file; the parser
  rounds it to a float where it is read.
\<close>

record EntryData =
  ed_title :: "string option"
  ed_type :: "string option"
  ed_format :: "string option"
  ed_quantum :: "bool option"
  ed_knowledge_grants :: "string list option"
  ed_importance :: "string option"
  ed_short_desc :: "string option"
  ed_adds_to_log :: "bool option"
  ed_appears_after :: "string list option"
  ed_key_info :: "string option"
  ed_requires_knowledge :: "string list option"
  ed_requires_dialogue_count :: "int option"
  ed_requires_exploration_percentage :: "rat option"

text \<open>The empty dict \<^verbatim>\<open>{}\<close>, the only entry dict that is false in a condition.\<close>

definition empty_entry_data :: EntryData where
  "empty_entry_data =
     \<lparr>ed_title = None, ed_type = None, ed_format = None, ed_quantum = None,
      ed_knowledge_grants = None, ed_importance = None, ed_short_desc = None,
      ed_adds_to_log = None, ed_appears_after = None, ed_key_info = None,
      ed_requires_knowledge = None, ed_requires_dialogue_count = None,
      ed_requires_exploration_percentage = None\<rparr>"

record POIData =
  poi_name :: "string option"
  poi_description :: "string option"
  connections :: "string list option"
  distance_to :: "(string \<times> int) list option"
  poi_entries :: "string list option"
  has_ship :: "bool option"
  npcs :: "string list option"

definition empty_poi_data :: POIData where
  "empty_poi_data =
     \<lparr>poi_name = None, poi_description = None, connections = None, distance_to = None,
      poi_entries = None, has_ship = None, npcs = None\<rparr>"

record LocationInfo =
  loc_name :: "string option"
  starting_poi :: "string option"
  points_of_interest :: "(string \<times> POIData) list option"
  entries :: "(string \<times> EntryData) list option"
  requires_knowledge :: "string list option"
  always_accessible :: "bool option"

text \<open>
  The whole file. The key \<^verbatim>\<open>"locations"\<close> is subscripted by every constructor, so it is
  present in every running system.
\<close>

record LocationData =
  locations :: "(string \<times> LocationInfo) list"
  supernova_config_actions_until_supernova :: int

text \<open>The f-string \<^verbatim>\<open>f"{location}.{id}"\<close> and \<^verbatim>\<open>str.split(sep)\<close> for a one-character separator.\<close>

definition full_id :: "string \<Rightarrow> string \<Rightarrow> string" where
  "full_id loc ident = loc @ ''.'' @ ident"

fun split_on :: "char \<Rightarrow> string \<Rightarrow> string list" where
  "split_on sep [] = [[]]"
| "split_on sep (c # cs) =
     (if c = sep then [] # split_on sep cs
      else (case split_on sep cs of
              [] \<Rightarrow> [[c]]
            | w # ws \<Rightarrow> (c # w) # ws))"

section \<open>knowledge\_menu.py\<close>

record KnowledgeEntry =
  entry_id :: string
  location_id :: string
  title :: string
  entry_type :: string
  format_type :: string
  is_quantum :: bool
  knowledge_grants :: "string list"
  discovered :: bool
  discovered_loop :: int
  importance :: string
  short_desc :: string
  adds_to_log :: bool
  appears_after :: "string list"
  key_info :: string

record KnowledgeProgress =
  entries_discovered :: "string set"
  knowledge_gained :: "string set"
  locations_visited :: "string set"
  current_loop :: int
  total_visits :: int
  dialogue_topics_asked :: int
  new_entries_since_last_view :: int
  discovered_commands :: "string set"

definition KnowledgeProgress_init :: KnowledgeProgress where
  "KnowledgeProgress_init =
     \<lparr>entries_discovered = {}, knowledge_gained = {}, locations_visited = {},
      current_loop = 1, total_visits = 0, dialogue_topics_asked = 0,
      new_entries_since_last_view = 0,
      discovered_commands = {''explore'', ''visit'', ''locations'', ''check log'', ''help'', ''quit''}\<rparr>"

text \<open>
  \<^verbatim>\<open>KnowledgeProgress.add_entry\<close> mutates the progress and the entry object it is given;
  the model returns both.
\<close>

definition add_entry ::
  "KnowledgeProgress \<Rightarrow> KnowledgeEntry \<Rightarrow> int \<Rightarrow> bool \<times> KnowledgeProgress \<times> KnowledgeEntry" where
  "add_entry p entry loop =
     (if entry_id entry \<in> entries_discovered p then (False, p, entry)
      else (True,
            p\<lparr>entries_discovered := insert (entry_id entry) (entries_discovered p),
              knowledge_gained := knowledge_gained p \<union> set (knowledge_grants entry),
              new_entries_since_last_view := new_entries_since_last_view p + 1\<rparr>,
            entry\<lparr>discovered := True, discovered_loop := loop\<rparr>))"

definition has_knowledge :: "KnowledgeProgress \<Rightarrow> string \<Rightarrow> bool" where
  "has_knowledge p knowledge_id = (knowledge_id \<in> knowledge_gained p)"

definition has_all_knowledge :: "KnowledgeProgress \<Rightarrow> string list \<Rightarrow> bool" where
  "has_all_knowledge p knowledge_ids = list_all (\<lambda>k. k \<in> knowledge_gained p) knowledge_ids"

text \<open>\<^verbatim>\<open>(len(self.entries_discovered) / total_entries) * 100\<close>: a float division, then a float product.\<close>

definition get_completion_percentage :: "KnowledgeProgress \<Rightarrow> nat \<Rightarrow> rat" where
  "get_completion_percentage p total_entries =
     (if total_entries = 0 then 0
      else round_double
             (round_double (of_nat (card (entries_discovered p)) / of_nat total_entries) * 100))"

record KnowledgeMenu =
  progress :: KnowledgeProgress
  all_entries :: "(string \<times> KnowledgeEntry) list"
  km_location_data :: LocationData

definition KnowledgeMenu_init :: KnowledgeMenu where
  "KnowledgeMenu_init =
     \<lparr>progress = KnowledgeProgress_init, all_entries = [],
      km_location_data = \<lparr>locations = [], supernova_config_actions_until_supernova = 0\<rparr>\<rparr>"

text \<open>The body of the inner loop of \<^verbatim>\<open>register_entries\<close>, for one entry of one location.\<close>

definition register_entry ::
  "string \<Rightarrow> string \<times> EntryData \<Rightarrow> KnowledgeMenu \<Rightarrow> py_error + KnowledgeMenu" where
  "register_entry loc_id e km =
     (let full_entry_id = full_id loc_id (fst e); entry_data = snd e in
      if \<not> get_default (ed_adds_to_log entry_data) True then Inr km
      else
        (case (ed_title entry_data, ed_type entry_data, ed_format entry_data) of
           (Some t, Some ty, Some f) \<Rightarrow>
             Inr (km\<lparr>all_entries :=
                    dict_set full_entry_id
                      \<lparr>entry_id = full_entry_id, location_id = loc_id, title = t,
                       entry_type = ty, format_type = f,
                       is_quantum = get_default (ed_quantum entry_data) False,
                       knowledge_grants = get_default (ed_knowledge_grants entry_data) [],
                       discovered = False, discovered_loop = 0,
                       importance = get_default (ed_importance entry_data) ''optional'',
                       short_desc = get_default (ed_short_desc entry_data) [],
                       adds_to_log = get_default (ed_adds_to_log entry_data) True,
                       appears_after = get_default (ed_appears_after entry_data) [],
                       key_info = get_default (ed_key_info entry_data) []\<rparr>
                      (all_entries km)\<rparr>)
         | _ \<Rightarrow> Inl KeyError))"

text \<open>A \<^verbatim>\<open>for\<close> loop whose body may raise: the first exception ends it.\<close>

fun for_each :: "('a \<Rightarrow> 's \<Rightarrow> py_error + 's) \<Rightarrow> 'a list \<Rightarrow> 's \<Rightarrow> py_error + 's" where
  "for_each body [] s = Inr s"
| "for_each body (x # xs) s =
     (case body x s of Inl e \<Rightarrow> Inl e | Inr s' \<Rightarrow> for_each body xs s')"

definition register_location ::
  "string \<times> LocationInfo \<Rightarrow> KnowledgeMenu \<Rightarrow> py_error + KnowledgeMenu" where
  "register_location l km =
     (case subscript (entries (snd l)) of
        Inl e \<Rightarrow> Inl e
      | Inr es \<Rightarrow> for_each (register_entry (fst l)) es km)"

definition register_entries :: "KnowledgeMenu \<Rightarrow> LocationData \<Rightarrow> py_error + KnowledgeMenu" where
  "register_entries km location_data =
     for_each register_location (locations location_data) (km\<lparr>km_location_data := location_data\<rparr>)"

definition discover_entry :: "KnowledgeMenu \<Rightarrow> string \<Rightarrow> bool \<times> KnowledgeMenu" where
  "discover_entry km eid =
     (case map_of (all_entries km) eid of
        None \<Rightarrow> (False, km)
      | Some entry \<Rightarrow>
          (case add_entry (progress km) entry (current_loop (progress km)) of
             (was_new, p', entry') \<Rightarrow>
               (was_new, km\<lparr>progress := p', all_entries := dict_set eid entry' (all_entries km)\<rparr>)))"

text \<open>
  \<^verbatim>\<open>_get_entry_data\<close>: the raw dict of an entry, \<open>None\<close> when the id does not split into
  exactly two parts or a key is missing on the way.
\<close>

definition get_entry_data :: "KnowledgeMenu \<Rightarrow> string \<Rightarrow> EntryData option" where
  "get_entry_data km eid =
     (case split_on CHR ''.'' eid of
        [loc_id, ent_id] \<Rightarrow>
          (case map_of (locations (km_location_data km)) loc_id of
             None \<Rightarrow> None
           | Some loc_info \<Rightarrow> map_of (get_default (entries loc_info) []) ent_id)
      | _ \<Rightarrow> None)"

text \<open>
  The second component of the result of \<^verbatim>\<open>can_access_entry\<close>: the message, as the branch
  that produced it with the values it interpolates.
\<close>

datatype access_reason =
    Accessible
  | SomethingMissing
  | CantFind
  | NeedStabilization
  | NeedShip
  | NotYet "string list"
  | TalkMore int
  | ExploreMore int

definition can_access_entry :: "KnowledgeMenu \<Rightarrow> string \<Rightarrow> bool \<times> access_reason" where
  "can_access_entry km eid =
     (if map_of (all_entries km) eid = None then (False, SomethingMissing)
      else
        (case get_entry_data km eid of
           None \<Rightarrow> (False, CantFind)
         | Some entry_data \<Rightarrow>
             if entry_data = empty_entry_data then (False, CantFind)
             else
               (let required_knowledge = get_default (ed_requires_knowledge entry_data) [];
                    missing = filter (\<lambda>k. \<not> has_knowledge (progress km) k) required_knowledge;
                    required_dialogue = get_default (ed_requires_dialogue_count entry_data) 0;
                    required_pct =
                      round_double (get_default (ed_requires_exploration_percentage entry_data) 0);
                    total_entries = length (all_entries km);
                    current_pct =
                      round_double (get_completion_percentage (progress km) total_entries / 100)
                in
                  if required_knowledge \<noteq> [] \<and> \<not> has_all_knowledge (progress km) required_knowledge
                  then (if ''quantum_stabilization_ability'' \<in> set missing then (False, NeedStabilization)
                        else if ''ship_operation'' \<in> set missing then (False, NeedShip)
                        else (False, NotYet missing))
                  else if required_dialogue > 0 \<and> dialogue_topics_asked (progress km) < required_dialogue
                  then (False, TalkMore (required_dialogue - dialogue_topics_asked (progress km)))
                  else if required_pct > 0 \<and> current_pct < required_pct
                  then (False,
                        ExploreMore (\<lfloor>round_double (round_double (required_pct - current_pct) * 100)\<rfloor>))
                  else (True, Accessible))))"

definition should_entry_appear :: "KnowledgeMenu \<Rightarrow> KnowledgeEntry \<Rightarrow> bool" where
  "should_entry_appear km entry =
     list_all (\<lambda>knowledge_id. has_knowledge (progress km) knowledge_id) (appears_after entry)"

definition get_visible_entries :: "KnowledgeMenu \<Rightarrow> KnowledgeEntry list" where
  "get_visible_entries km =
     filter (\<lambda>entry. should_entry_appear km entry
                      \<and> (fst (can_access_entry km (entry_id entry)) \<or> discovered entry))
            (map snd (all_entries km))"

definition increment_loop :: "KnowledgeMenu \<Rightarrow> KnowledgeMenu" where
  "increment_loop km = km\<lparr>progress := (progress km)\<lparr>current_loop := current_loop (progress km) + 1\<rparr>\<rparr>"

definition add_knowledge :: "KnowledgeMenu \<Rightarrow> string \<Rightarrow> KnowledgeMenu" where
  "add_knowledge km knowledge_id =
     km\<lparr>progress := (progress km)\<lparr>knowledge_gained := insert knowledge_id (knowledge_gained (progress km))\<rparr>\<rparr>"

section \<open>A small world for the worked examples\<close>

text \<open>
  One location with two connected points of interest and one entry, which grants the
  launch code and appears in the log only after Hornfels has been met.
\<close>

definition example_entry :: EntryData where
  "example_entry =
     empty_entry_data
       \<lparr>ed_title := Some ''Launch Codes'', ed_type := Some ''wall_text'',
        ed_format := Some ''academic'',
        ed_knowledge_grants := Some [''launch_code_epistemic''],
        ed_appears_after := Some [''hornfels_met'']\<rparr>"

definition example_location_data :: LocationData where
  "example_location_data =
     \<lparr>locations =
        [(''timber_hearth'',
          \<lparr>loc_name = Some ''Timber Hearth'', starting_poi = Some ''village_center'',
           points_of_interest = Some
             [(''village_center'',
               empty_poi_data\<lparr>connections := Some [''observatory''],
                              distance_to := Some [(''observatory'', 2)]\<rparr>),
              (''observatory'',
               empty_poi_data\<lparr>connections := Some [''village_center''],
                              poi_entries := Some [''launch_codes'']\<rparr>)],
           entries = Some [(''launch_codes'', example_entry)],
           requires_knowledge = None, always_accessible = Some True\<rparr>)],
      supernova_config_actions_until_supernova = 22\<rparr>"

text \<open>
  The entry object and the knowledge menu that \<^verbatim>\<open>register_entries\<close> builds from this
  data, and the menu after the entry has been read once.
\<close>

definition example_log_entry :: KnowledgeEntry where
  "example_log_entry =
     \<lparr>entry_id = ''timber_hearth.launch_codes'', location_id = ''timber_hearth'',
      title = ''Launch Codes'', entry_type = ''wall_text'', format_type = ''academic'',
      is_quantum = False, knowledge_grants = [''launch_code_epistemic''],
      discovered = False, discovered_loop = 0, importance = ''optional'',
      short_desc = [], adds_to_log = True, appears_after = [''hornfels_met''],
      key_info = []\<rparr>"

definition example_menu :: KnowledgeMenu where
  "example_menu =
     \<lparr>progress = KnowledgeProgress_init,
      all_entries = [(''timber_hearth.launch_codes'', example_log_entry)],
      km_location_data = example_location_data\<rparr>"

definition example_menu_read :: KnowledgeMenu where
  "example_menu_read = snd (discover_entry example_menu ''timber_hearth.launch_codes'')"

section \<open>poi\_system.py\<close>

record POISystem =
  ps_location_data :: LocationData
  current_location :: string
  current_poi :: string
  in_ship :: bool
  ship_flying :: bool
  discovered_pois :: "string set"
  visited_pois :: "string set"

definition discover_poi :: "POISystem \<Rightarrow> string \<Rightarrow> string \<Rightarrow> POISystem" where
  "discover_poi ps location poi =
     ps\<lparr>discovered_pois := insert (full_id location poi) (discovered_pois ps)\<rparr>"

text \<open>
  \<^verbatim>\<open>_initialize_starting_position\<close>: the subscript
  \<^verbatim>\<open>self.location_data["locations"][self.current_location]\<close> raises KeyError for a
  location that the data does not have.
\<close>

definition initialize_starting_position :: "POISystem \<Rightarrow> py_error + POISystem" where
  "initialize_starting_position ps =
     (case subscript (map_of (locations (ps_location_data ps)) (current_location ps)) of
        Inl e \<Rightarrow> Inl e
      | Inr loc_data \<Rightarrow>
          (let ps1 = ps\<lparr>current_poi := get_default (starting_poi loc_data) ''village_center''\<rparr>;
               ps2 = discover_poi ps1 (current_location ps1) (current_poi ps1)
           in Inr (ps2\<lparr>visited_pois :=
                          insert (full_id (current_location ps2) (current_poi ps2)) (visited_pois ps2)\<rparr>)))"

text \<open>
  \<^verbatim>\<open>POISystem.__init__\<close>; \<^verbatim>\<open>current_poi\<close> is \<^verbatim>\<open>None\<close> (here the empty string) until
  \<^verbatim>\<open>_initialize_starting_position\<close> has set it.
\<close>

definition POISystem_init :: "LocationData \<Rightarrow> py_error + POISystem" where
  "POISystem_init location_data =
     initialize_starting_position
       \<lparr>ps_location_data = location_data, current_location = ''timber_hearth'',
        current_poi = [], in_ship = False, ship_flying = False,
        discovered_pois = {}, visited_pois = {}\<rparr>"

definition get_current_poi_data :: "POISystem \<Rightarrow> POIData" where
  "get_current_poi_data ps =
     (case map_of (locations (ps_location_data ps)) (current_location ps) of
        None \<Rightarrow> empty_poi_data
      | Some loc_data \<Rightarrow>
          get_default (map_of (get_default (points_of_interest loc_data) []) (current_poi ps))
            empty_poi_data)"

text \<open>\<^verbatim>\<open>move_to_poi\<close> returns \<^verbatim>\<open>(success, action_cost, message)\<close>; the model adds the new state.\<close>

definition move_to_poi ::
  "POISystem \<Rightarrow> string \<Rightarrow> py_error + ((bool \<times> int \<times> string) \<times> POISystem)" where
  "move_to_poi ps poi_id =
     (let current_poi_data = get_current_poi_data ps;
          conns = get_default (connections current_poi_data) []
      in
        if poi_id \<notin> set conns
        then Inr ((False, 0, ''You can't reach '' @ poi_id @ '' from here.''), ps)
        else
          (let distance = get_default (map_of (get_default (distance_to current_poi_data) []) poi_id) 1;
               ps1 = ps\<lparr>current_poi := poi_id\<rparr>;
               ps2 = discover_poi ps1 (current_location ps1) poi_id;
               ps3 = ps2\<lparr>visited_pois :=
                           insert (full_id (current_location ps2) poi_id) (visited_pois ps2)\<rparr>
           in
             (case subscript (map_of (locations (ps_location_data ps3)) (current_location ps3)) of
                Inl e \<Rightarrow> Inl e
              | Inr loc_data \<Rightarrow>
                  (let pois = get_default (points_of_interest loc_data) [];
                       name = get_default (poi_name (get_default (map_of pois poi_id) empty_poi_data)) poi_id
                   in Inr ((True, distance, ''You travel to '' @ name @ ''...''), ps3)))))"

section \<open>quantum\_system.py\<close>

record QuantumSystem =
  qs_eyes_closed :: bool
  quantum_states :: "string \<rightharpoonup> int"

definition QuantumSystem_init :: QuantumSystem where
  "QuantumSystem_init = \<lparr>qs_eyes_closed = False, quantum_states = Map.empty\<rparr>"

text \<open>\<^verbatim>\<open>_get_new_state\<close>, with the raw number \<open>r\<close> of its one random draw.\<close>

definition get_new_state :: "int \<Rightarrow> nat \<Rightarrow> py_error + int" where
  "get_new_state old_state r =
     (if old_state = 0 then Inr (random_randint r 1 6)
      else random_choice r (filter (\<lambda>s. s \<noteq> old_state) [1..6]))"

definition get_entry_state :: "QuantumSystem \<Rightarrow> string \<Rightarrow> int" where
  "get_entry_state qs full_entry_id = get_default (quantum_states qs full_entry_id) 0"

text \<open>The dict \<^verbatim>\<open>{}\<close> of a location, false in a condition.\<close>

definition empty_location_info :: LocationInfo where
  "empty_location_info =
     \<lparr>loc_name = None, starting_poi = None, points_of_interest = None, entries = None,
      requires_knowledge = None, always_accessible = None\<rparr>"

text \<open>
  The loop of \<^verbatim>\<open>_get_all_quantum_entries_at_poi\<close> over the entry ids of the POI;
  \<^verbatim>\<open>loc_info["entries"]\<close> is subscripted in its body.
\<close>

fun collect_quantum_entries ::
  "string \<Rightarrow> LocationInfo \<Rightarrow> string list \<Rightarrow> py_error + (string \<times> EntryData) list" where
  "collect_quantum_entries current_loc loc_info [] = Inr []"
| "collect_quantum_entries current_loc loc_info (eid # eids) =
     (case subscript (entries loc_info) of
        Inl e \<Rightarrow> Inl e
      | Inr es \<Rightarrow>
          (case collect_quantum_entries current_loc loc_info eids of
             Inl e \<Rightarrow> Inl e
           | Inr rest \<Rightarrow>
               (case map_of es eid of
                  None \<Rightarrow> Inr rest
                | Some entry_data \<Rightarrow>
                    if entry_data \<noteq> empty_entry_data \<and> get_default (ed_quantum entry_data) False
                    then Inr ((full_id current_loc eid, entry_data) # rest)
                    else Inr rest)))"

definition get_all_quantum_entries_at_poi ::
  "POISystem \<Rightarrow> py_error + (string \<times> EntryData) list" where
  "get_all_quantum_entries_at_poi location_system =
     (case map_of (locations (ps_location_data location_system)) (current_location location_system) of
        None \<Rightarrow> Inr []
      | Some loc_info \<Rightarrow>
          if loc_info = empty_location_info then Inr []
          else
            (case subscript (points_of_interest loc_info) of
               Inl e \<Rightarrow> Inl e
             | Inr pois \<Rightarrow>
                 (case map_of pois (current_poi location_system) of
                    None \<Rightarrow> Inr []
                  | Some poi_info \<Rightarrow>
                      if poi_info = empty_poi_data then Inr []
                      else collect_quantum_entries (current_location location_system) loc_info
                             (get_default (poi_entries poi_info) []))))"

text \<open>The body of the re-roll loop of \<^verbatim>\<open>quantum_observation\<close> for one entry.\<close>

definition roll_entry :: "nat \<Rightarrow> string \<Rightarrow> (string \<rightharpoonup> int) \<Rightarrow> py_error + (string \<rightharpoonup> int)" where
  "roll_entry r full_entry_id states =
     (case get_new_state (get_default (states full_entry_id) 0) r of
        Inl e \<Rightarrow> Inl e
      | Inr new_state \<Rightarrow> Inr (states(full_entry_id \<mapsto> new_state)))"

text \<open>The loop itself; the \<open>i\<close>-th draw of the observation is \<open>rnd i\<close>.\<close>

fun roll_entries ::
  "(nat \<Rightarrow> nat) \<Rightarrow> nat \<Rightarrow> (string \<times> EntryData) list \<Rightarrow> (string \<rightharpoonup> int) \<Rightarrow> py_error + (string \<rightharpoonup> int)" where
  "roll_entries rnd i [] states = Inr states"
| "roll_entries rnd i (e # es) states =
     (case roll_entry (rnd i) (fst e) states of
        Inl err \<Rightarrow> Inl err
      | Inr states' \<Rightarrow> roll_entries rnd (Suc i) es states')"

text \<open>\<^verbatim>\<open>quantum_observation\<close> always returns \<^verbatim>\<open>False\<close> (a free action).\<close>

definition quantum_observation ::
  "QuantumSystem \<Rightarrow> POISystem \<Rightarrow> (nat \<Rightarrow> nat) \<Rightarrow> py_error + (bool \<times> QuantumSystem)" where
  "quantum_observation qs location_system rnd =
     (if qs_eyes_closed qs then Inr (False, qs)
      else
        (case get_all_quantum_entries_at_poi location_system of
           Inl e \<Rightarrow> Inl e
         | Inr quantum_entries \<Rightarrow>
             (case roll_entries rnd 0 quantum_entries (quantum_states qs) of
                Inl e \<Rightarrow> Inl e
              | Inr states' \<Rightarrow> Inr (False, qs\<lparr>qs_eyes_closed := False, quantum_states := states'\<rparr>))))"

text \<open>
  The generator \<^verbatim>\<open>random.Random(state)\<close> of the Python library is a parameter: the type
  \<open>'g\<close> of its internal state, the seeding, and \<^verbatim>\<open>shuffle\<close>, which permutes a list and
  advances the generator.
\<close>

record 'g Random =
  Random_seed :: "int \<Rightarrow> 'g"
  Random_shuffle :: "'g \<Rightarrow> string list \<Rightarrow> string list \<times> 'g"

text \<open>\<^verbatim>\<open>line.split()\<close> (the words between runs of white space) and \<^verbatim>\<open>sep.join(words)\<close>.\<close>

fun split_words :: "string \<Rightarrow> string \<Rightarrow> string list" where
  "split_words cur [] = (if cur = [] then [] else [rev cur])"
| "split_words cur (c # cs) =
     (if is_space c
      then (if cur = [] then split_words [] cs else rev cur # split_words [] cs)
      else split_words (c # cur) cs)"

definition py_split :: "string \<Rightarrow> string list" where
  "py_split line = split_words [] line"

fun py_join :: "string \<Rightarrow> string list \<Rightarrow> string" where
  "py_join sep [] = []"
| "py_join sep [w] = w"
| "py_join sep (w # v # ws) = w @ sep @ py_join sep (v # ws)"

text \<open>The loop over the lines, shared by the two copies of the scrambling function.\<close>

fun scramble_lines :: "'g Random \<Rightarrow> 'g \<Rightarrow> string list \<Rightarrow> string list" where
  "scramble_lines R rng [] = []"
| "scramble_lines R rng (line # lines) =
     (if py_strip line \<noteq> []
      then (case Random_shuffle R rng (py_split line) of
              (words, rng') \<Rightarrow> py_join '' '' words # scramble_lines R rng' lines)
      else line # scramble_lines R rng lines)"

text \<open>\<^verbatim>\<open>QuantumSystem.scramble_text\<close>.\<close>

definition scramble_text :: "'g Random \<Rightarrow> string \<Rightarrow> int \<Rightarrow> string" where
  "scramble_text R content state =
     (if state = 6 then content
      else py_join [CHR 0x0A]
             (scramble_lines R (Random_seed R state) (split_on (CHR 0x0A) content)))"

section \<open>content\_loader.py\<close>

text \<open>\<^verbatim>\<open>ContentLoader._scramble_text\<close>, the copy without the test for state 6.\<close>

definition ContentLoader_scramble_text :: "'g Random \<Rightarrow> string \<Rightarrow> int \<Rightarrow> string" where
  "ContentLoader_scramble_text R content state =
     py_join [CHR 0x0A]
       (scramble_lines R (Random_seed R state) (split_on (CHR 0x0A) content))"

text \<open>What \<^verbatim>\<open>_read_entry\<close> puts on the screen.\<close>

datatype display = DisplayContent string | DisplayPlaceholder | CannotAccess access_reason

text \<open>
  The table \<^verbatim>\<open>content_map\<close> of \<^verbatim>\<open>load_and_display_entry\<close>: the full entry ids that
  have a content file, with the name of the file.
\<close>

definition content_map :: "(string \<times> string) list" where
  "content_map =
     [(''timber_hearth.deontic_critique'', ''timber_hearth_deontic_critique.md''),
      (''timber_hearth.epistemic_intro'', ''timber_hearth_epistemic_intro.md''),
      (''timber_hearth.launch_code_discovery'', ''observatory_launch_code.md''),
      (''timber_hearth.ship_access_tutorial'', ''ship_access_tutorial.md''),
      (''timber_hearth.signal_frequencies_log'', ''timber_hearth_signal_frequencies.md''),
      (''timber_hearth.cardinal_directions_poem'', ''timber_hearth_cardinal_directions.md''),
      (''timber_hearth.quantum_moon_rumor'', ''timber_hearth_quantum_moon_rumor.md''),
      (''attlerock.jenkins_overview'', ''attlerock_jenkins_overview.md''),
      (''attlerock.quantum_stabilization'', ''attlerock_quantum_stabilization.md''),
      (''attlerock.evocative_spaces'', ''attlerock_evocative_spaces.md''),
      (''attlerock.embedded_narratives'', ''attlerock_embedded_narratives.md''),
      (''attlerock.enacting_stories'', ''attlerock_enacting_stories.md''),
      (''attlerock.emergent_narratives'', ''attlerock_emergent_narratives.md''),
      (''attlerock.frequency_codes'', ''attlerock_frequency_codes.md''),
      (''brittle_hollow.time_loop_intro'', ''brittle_hollow_time_loop_intro.md''),
      (''brittle_hollow.majora_comparison'', ''brittle_hollow_majora_comparison.md''),
      (''brittle_hollow.quantum_moon_frequency'', ''brittle_hollow_quantum_moon_frequency.md''),
      (''brittle_hollow.quantum_research_notes'', ''brittle_hollow_quantum_research_notes.md''),
      (''quantum_moon.solanum_location'', ''quantum_moon_arrival.md''),
      (''quantum_moon.guidance_dialogue'', ''solanum_guidance_dialogue.md''),
      (''quantum_moon.thesis_ending'', ''ending_sequence.md'')]"

text \<open>
  \<^verbatim>\<open>load_and_display_entry\<close> with \<^verbatim>\<open>_display_from_file\<close>. The directory
  \<^verbatim>\<open>content/entries\<close> is the map \<open>files\<close> from a file name to the text of the file,
  \<open>None\<close> when the file does not exist. An id that the table does not list, or whose
  file does not exist, gets the placeholder. Every display style but the one of an ending
  subscripts \<^verbatim>\<open>entry_data["title"]\<close>; the styles differ in layout only.
\<close>

definition load_and_display_entry ::
  "'g Random \<Rightarrow> (string \<rightharpoonup> string) \<Rightarrow> string \<Rightarrow> string \<Rightarrow> EntryData \<Rightarrow> int option
     \<Rightarrow> py_error + display" where
  "load_and_display_entry R files loc_id ent_id entry_data quantum_state =
     (case map_of content_map (full_id loc_id ent_id) of
        None \<Rightarrow> Inr DisplayPlaceholder
      | Some file_name \<Rightarrow>
          (case files file_name of
             None \<Rightarrow> Inr DisplayPlaceholder
           | Some content \<Rightarrow>
               (let shown =
                      (case quantum_state of
                         None \<Rightarrow> content
                       | Some state \<Rightarrow>
                           if state \<noteq> 6 then ContentLoader_scramble_text R content state
                           else content)
                in if get_default (ed_type entry_data) ''wall_text'' = ''ending''
                   then Inr (DisplayContent shown)
                   else (case subscript (ed_title entry_data) of
                           Inl e \<Rightarrow> Inl e
                         | Inr t \<Rightarrow> Inr (DisplayContent shown)))))"

section \<open>new\_orchestrator.py\<close>

record Orchestrator =
  knowledge_menu :: KnowledgeMenu
  o_location_data :: LocationData
  loop_manager :: LoopManager
  poi_system :: POISystem
  quantum_system :: QuantumSystem
  quantum_navigator :: QuantumNavigator
  content_files :: "string \<rightharpoonup> string"
  intro_complete :: bool
  observatory_tutorial_shown :: bool
  quantum_frequency_entered :: bool
  launch_code_entered :: bool
  eyes_closed :: bool
  eyes_closed_at_location :: "string option"

text \<open>
  \<^verbatim>\<open>LoopManager.trigger_supernova\<close>. The two narrative sequences print, sleep and read the
  knowledge menu without changing it; after either of them \<^verbatim>\<open>is_first_loop\<close> is false.
\<close>

definition trigger_supernova ::
  "LoopManager \<Rightarrow> KnowledgeMenu \<Rightarrow> bool \<times> LoopManager \<times> KnowledgeMenu" where
  "trigger_supernova lm km =
     (True,
      lm\<lparr>is_first_loop := False, current_actions := 0, cavern_has_collapsed := False,
         loop_count := loop_count lm + 1\<rparr>,
      increment_loop km)"

text \<open>
  The branch \<^verbatim>\<open>if result == "supernova"\<close> of \<^verbatim>\<open>_exploration_loop\<close>: the reset of the
  loop. \<^verbatim>\<open>set.remove\<close> is guarded by the membership test, so it does not raise.
\<close>

definition handle_supernova :: "Orchestrator \<Rightarrow> py_error + Orchestrator" where
  "handle_supernova orch =
     (case trigger_supernova (loop_manager orch) (knowledge_menu orch) of
        (continue, lm', km') \<Rightarrow>
          (case initialize_starting_position
                  ((poi_system orch)\<lparr>current_location := ''timber_hearth'', in_ship := False,
                                     ship_flying := False\<rparr>) of
             Inl e \<Rightarrow> Inl e
           | Inr ps' \<Rightarrow>
               Inr (orch\<lparr>loop_manager := lm',
                         poi_system := ps',
                         quantum_navigator := reset_navigation (quantum_navigator orch),
                         quantum_frequency_entered := False,
                         launch_code_entered := False,
                         eyes_closed := False,
                         eyes_closed_at_location := None,
                         knowledge_menu :=
                           (if ''cavern_collapse_witnessed'' \<in> knowledge_gained (progress km')
                            then km'\<lparr>progress := (progress km')
                                       \<lparr>knowledge_gained :=
                                          knowledge_gained (progress km') - {''cavern_collapse_witnessed''}\<rparr>\<rparr>
                            else km')\<rparr>)))"

text \<open>\<^verbatim>\<open>_get_entry_raw_data\<close>: the raw dict of an entry, \<^verbatim>\<open>{}\<close> when there is none.\<close>

definition get_entry_raw_data :: "Orchestrator \<Rightarrow> string \<Rightarrow> EntryData" where
  "get_entry_raw_data orch full_entry_id =
     (case split_on CHR ''.'' full_entry_id of
        [loc_id, ent_id] \<Rightarrow>
          (case map_of (locations (o_location_data orch)) loc_id of
             None \<Rightarrow> empty_entry_data
           | Some loc_info \<Rightarrow>
               get_default (map_of (get_default (entries loc_info) []) ent_id) empty_entry_data)
      | _ \<Rightarrow> empty_entry_data)"

text \<open>
  The end of both discovering branches of \<^verbatim>\<open>_read_entry\<close>: the notification of a new
  entry subscripts \<^verbatim>\<open>entry_data['title']\<close>, then the content is displayed.
\<close>

definition notify_and_display ::
  "'g Random \<Rightarrow> Orchestrator \<Rightarrow> string \<Rightarrow> string \<Rightarrow> EntryData \<Rightarrow> bool \<Rightarrow> int option
     \<Rightarrow> py_error + (display \<times> Orchestrator)" where
  "notify_and_display R orch loc_id ent_id entry_data was_new quantum_state =
     (if was_new \<and> ed_title entry_data = None then Inl KeyError
      else
        (case load_and_display_entry R (content_files orch) loc_id ent_id entry_data quantum_state of
           Inl e \<Rightarrow> Inl e
         | Inr d \<Rightarrow> Inr (d, orch)))"

text \<open>\<^verbatim>\<open>_read_entry\<close>, with what it displays and the new state.\<close>

definition read_entry ::
  "'g Random \<Rightarrow> Orchestrator \<Rightarrow> string \<Rightarrow> string \<Rightarrow> py_error + (display \<times> Orchestrator)" where
  "read_entry R orch loc_id ent_id =
     (let full = full_id loc_id ent_id;
          entry_data = get_entry_raw_data orch full
      in
        if get_default (ed_quantum entry_data) False
        then
          (let quantum_state = get_entry_state (quantum_system orch) full in
           if quantum_state = 6
           then
             (case discover_entry (knowledge_menu orch) full of
                (was_new, km1) \<Rightarrow>
                  notify_and_display R
                    (orch\<lparr>knowledge_menu :=
                            (if was_new
                             then fold (\<lambda>knowledge km. add_knowledge km knowledge)
                                    (get_default (ed_knowledge_grants entry_data) []) km1
                             else km1)\<rparr>)
                    loc_id ent_id entry_data was_new (Some 6))
           else
             (case load_and_display_entry R (content_files orch) loc_id ent_id entry_data
                     (Some quantum_state) of
                Inl e \<Rightarrow> Inl e
              | Inr d \<Rightarrow> Inr (d, orch)))
        else
          (case can_access_entry (knowledge_menu orch) full of
             (can_access, reason) \<Rightarrow>
               if \<not> can_access then Inr (CannotAccess reason, orch)
               else
                 (case discover_entry (knowledge_menu orch) full of
                    (was_new, km1) \<Rightarrow>
                      notify_and_display R (orch\<lparr>knowledge_menu := km1\<rparr>)
                        loc_id ent_id entry_data was_new None)))"

section \<open>A second small world, with a quantum entry\<close>

text \<open>
  The home location and Brittle Hollow, whose quantum cavern holds one quantum entry, an
  id that the table of the content loader lists; its content file has two lines of three
  words. The player sits in the flying
  ship over the cavern at the end of a loop, has witnessed the collapse, and the entry is
  in state 3. The generator of the examples rotates a list by its state.
\<close>

definition research_notes :: EntryData where
  "research_notes =
     empty_entry_data
       \<lparr>ed_title := Some ''Quantum Research Notes'', ed_type := Some ''wall_text'',
        ed_format := Some ''academic'', ed_quantum := Some True,
        ed_knowledge_grants := Some [''quantum_insight'']\<rparr>"

definition quantum_world :: LocationData where
  "quantum_world =
     \<lparr>locations =
        [(''timber_hearth'',
          \<lparr>loc_name = Some ''Timber Hearth'', starting_poi = Some ''campfire'',
           points_of_interest = Some
             [(''campfire'', empty_poi_data\<lparr>connections := Some [''launch_pad'']\<rparr>),
              (''launch_pad'', empty_poi_data\<lparr>connections := Some [''campfire''],
                                             has_ship := Some True\<rparr>)],
           entries = Some [],
           requires_knowledge = None, always_accessible = Some True\<rparr>),
         (''brittle_hollow'',
          \<lparr>loc_name = Some ''Brittle Hollow'', starting_poi = Some ''landing_site'',
           points_of_interest = Some
             [(''landing_site'', empty_poi_data\<lparr>connections := Some [''quantum_cavern'']\<rparr>),
              (''quantum_cavern'', empty_poi_data\<lparr>connections := Some [''landing_site''],
                                                 poi_entries := Some [''quantum_research_notes'']\<rparr>)],
           entries = Some [(''quantum_research_notes'', research_notes)],
           requires_knowledge = None, always_accessible = None\<rparr>)],
      supernova_config_actions_until_supernova = 22\<rparr>"

definition research_notes_entry :: KnowledgeEntry where
  "research_notes_entry =
     \<lparr>entry_id = ''brittle_hollow.quantum_research_notes'', location_id = ''brittle_hollow'',
      title = ''Quantum Research Notes'', entry_type = ''wall_text'', format_type = ''academic'',
      is_quantum = True, knowledge_grants = [''quantum_insight''],
      discovered = False, discovered_loop = 0, importance = ''optional'',
      short_desc = [], adds_to_log = True, appears_after = [], key_info = []\<rparr>"

definition quantum_menu :: KnowledgeMenu where
  "quantum_menu =
     \<lparr>progress = KnowledgeProgress_init\<lparr>knowledge_gained := {''cavern_collapse_witnessed'', ''ship_operation''}\<rparr>,
      all_entries = [(''brittle_hollow.quantum_research_notes'', research_notes_entry)],
      km_location_data = quantum_world\<rparr>"

definition example_poi_system :: POISystem where
  "example_poi_system =
     \<lparr>ps_location_data = quantum_world, current_location = ''brittle_hollow'',
      current_poi = ''quantum_cavern'', in_ship = True, ship_flying = True,
      discovered_pois = {''timber_hearth.campfire'', ''brittle_hollow.landing_site'',
                         ''brittle_hollow.quantum_cavern''},
      visited_pois = {''timber_hearth.campfire'', ''brittle_hollow.landing_site'',
                      ''brittle_hollow.quantum_cavern''}\<rparr>"

definition example_orchestrator :: Orchestrator where
  "example_orchestrator =
     \<lparr>knowledge_menu = quantum_menu,
      o_location_data = quantum_world,
      loop_manager = (LoopManager_init 22)\<lparr>current_actions := 22, cavern_has_collapsed := True\<rparr>,
      poi_system = example_poi_system,
      quantum_system = \<lparr>qs_eyes_closed = False,
                         quantum_states = [''brittle_hollow.quantum_research_notes'' \<mapsto> 3]\<rparr>,
      quantum_navigator = \<lparr>nav_current_location = ''tree'', has_visited_platform = True\<rparr>,
      content_files = [''brittle_hollow_quantum_research_notes.md'' \<mapsto>
                         ''the moon moves'' @ [CHR 0x0A] @ ''when not observed''],
      intro_complete = True, observatory_tutorial_shown = True,
      quantum_frequency_entered = True, launch_code_entered = True,
      eyes_closed = False, eyes_closed_at_location = None\<rparr>"

definition example_random :: "nat Random" where
  "example_random = \<lparr>Random_seed = nat, Random_shuffle = (\<lambda>g ws. (rotate g ws, Suc g))\<rparr>"

text \<open>The same situation with the entry stabilized in state 6.\<close>

definition example_orchestrator_stable :: Orchestrator where
  "example_orchestrator_stable =
     example_orchestrator
       \<lparr>quantum_system := \<lparr>qs_eyes_closed = False,
                            quantum_states = [''brittle_hollow.quantum_research_notes'' \<mapsto> 6]\<rparr>\<rparr>"

section \<open>The mid-loop event\<close>

text \<open>
  Claim C5: for every sequence of increment\_action calls with positive costs within one
  loop, the mid-loop event is emitted exactly once, on the call that first makes the
  counter cross 14, and is never skipped. The code tests \<open>current_actions = 14\<close>, so a
  call that steps over 14 emits nothing: after thirteen actions of cost 1, the landing
  cost 2 takes the counter from 13 to 15, below the terminal threshold 22, and no call of
  the sequence has returned the collapse signal.
\<close>

theorem increment_action_steps_over_mid_loop_event:
  "increment_actions (LoopManager_init 22) (replicate 13 1 @ [2]) =
     (replicate 14 NoSignal,
      (LoopManager_init 22)\<lparr>current_actions := 15, cavern_has_collapsed := False\<rparr>)"
  by (simp add: increment_action_def LoopManager_init_def numeral_eq_Suc)

section \<open>Quantum navigation\<close>

lemmas observe_direction_defs =
  observe_direction_def py_strip_def py_lower_def lower_char_def is_space_def
  direction_map_def is_at_grove_def nav_locations_def list_remove_def
  random_choice_def randbelow_def

text \<open>
  Claim C2, as stated: at the platform (node A, stable edge east to the crystals, node B)
  the random branch draws among the tree and the arch only and never yields B. It does
  yield B: looking north with the draw 0 lands on the crystals.
\<close>

theorem observe_direction_platform_random_reaches_crystals:
  "observe_direction \<lparr>nav_current_location = ''platform'', has_visited_platform = False\<rparr> ''north'' 0 =
     Inr ((True, ''Quantum teleport to Singing Crystal Field'', False),
          \<lparr>nav_current_location = ''crystals'', has_visited_platform = False\<rparr>)"
  by (simp add: observe_direction_defs)

text \<open>
  Claim C2, amended: at the platform, looking east always leads to the crystals; looking
  north, south or west succeeds and leads to the element of the three other pre-terminal
  nodes crystals, tree, arch that the draw selects (one node for each of the three values
  of the draw), never to the platform itself and never to the convergence.
\<close>

theorem observe_direction_platform:
  assumes "nav_current_location nav = ''platform''"
    and "d = ''north'' \<or> d = ''south'' \<or> d = ''west''"
  shows "observe_direction nav ''east'' r =
           Inr ((True, ''The quantum waveform shifts. You find yourself at: Singing Crystal Field'', False),
                nav\<lparr>nav_current_location := ''crystals''\<rparr>)
       \<and> (\<exists>msg nav'. observe_direction nav d r = Inr ((True, msg, False), nav')
             \<and> nav_current_location nav' = [''crystals'', ''tree'', ''arch''] ! (r mod 3)
             \<and> nav_current_location nav' \<in> {''crystals'', ''tree'', ''arch''}
             \<and> nav_current_location nav' \<noteq> ''platform''
             \<and> nav_current_location nav' \<noteq> ''convergence'')"
proof -
  have r3: "r mod 3 = 0 \<or> r mod 3 = 1 \<or> r mod 3 = 2"
    by arith
  have east: "observe_direction nav ''east'' r =
           Inr ((True, ''The quantum waveform shifts. You find yourself at: Singing Crystal Field'', False),
                nav\<lparr>nav_current_location := ''crystals''\<rparr>)"
    using assms(1) by (simp add: observe_direction_defs)
  have other: "\<exists>msg nav'. observe_direction nav d r = Inr ((True, msg, False), nav')
             \<and> nav_current_location nav' = [''crystals'', ''tree'', ''arch''] ! (r mod 3)
             \<and> nav_current_location nav' \<in> {''crystals'', ''tree'', ''arch''}
             \<and> nav_current_location nav' \<noteq> ''platform''
             \<and> nav_current_location nav' \<noteq> ''convergence''"
    using assms r3 by (elim disjE; simp add: observe_direction_defs)
  from east other show ?thesis by blast
qed

theorem observe_direction_platform_witness:
  "nav_current_location QuantumNavigator_init = ''platform''
   \<and> observe_direction QuantumNavigator_init ''east'' 1 =
           Inr ((True, ''The quantum waveform shifts. You find yourself at: Singing Crystal Field'', False),
                QuantumNavigator_init\<lparr>nav_current_location := ''crystals''\<rparr>)
   \<and> (\<exists>msg nav'. observe_direction QuantumNavigator_init ''south'' 1 = Inr ((True, msg, False), nav')
         \<and> nav_current_location nav' = ''tree'')"
proof -
  have h1: "nav_current_location QuantumNavigator_init = ''platform''"
    by (simp add: QuantumNavigator_init_def)
  have h2: "''south'' = ''north'' \<or> ''south'' = ''south'' \<or> ''south'' = ''west''"
    by simp
  have "[''crystals'', ''tree'', ''arch''] ! (1 mod 3) = ''tree''"
    by simp
  with h1 observe_direction_platform [OF h1 h2, of 1] show ?thesis
    by auto
qed

text \<open>
  Claim C3: at the convergence, observing a cardinal direction is total, does not raise and
  jumps among the four pre-terminal nodes. The convergence has no stable path, so every
  cardinal direction takes the random branch, which removes the current location from the
  list of the four pre-terminal nodes; the convergence is not in that list and the removal
  raises ValueError, whatever the draw.
\<close>

theorem observe_direction_convergence_raises:
  "observe_direction \<lparr>nav_current_location = ''convergence'', has_visited_platform = hv\<rparr> ''north'' r = Inl ValueError
   \<and> observe_direction \<lparr>nav_current_location = ''convergence'', has_visited_platform = hv\<rparr> ''south'' r = Inl ValueError
   \<and> observe_direction \<lparr>nav_current_location = ''convergence'', has_visited_platform = hv\<rparr> ''east'' r = Inl ValueError
   \<and> observe_direction \<lparr>nav_current_location = ''convergence'', has_visited_platform = hv\<rparr> ''west'' r = Inl ValueError"
  by (simp add: observe_direction_defs)

section \<open>The knowledge menu\<close>

lemma map_of_dict_set: "map_of (dict_set k v kvs) = (map_of kvs)(k \<mapsto> v)"
  by (induction kvs) auto

lemma dict_set_same: "map_of kvs k = Some v \<Longrightarrow> dict_set k v kvs = kvs"
  by (induction kvs) (auto split: if_splits)

lemma register_entries_example:
  "register_entries KnowledgeMenu_init example_location_data = Inr example_menu"
  by (simp add: register_entries_def register_location_def register_entry_def
      example_location_data_def example_entry_def example_menu_def example_log_entry_def
      subscript_def get_default_def full_id_def empty_entry_data_def Let_def
      KnowledgeMenu_init_def)

lemma discover_entry_example:
  "discover_entry example_menu ''timber_hearth.launch_codes'' =
     (True,
      example_menu
        \<lparr>progress :=
           KnowledgeProgress_init
             \<lparr>entries_discovered := {''timber_hearth.launch_codes''},
              knowledge_gained := {''launch_code_epistemic''},
              new_entries_since_last_view := 1\<rparr>,
         all_entries :=
           [(''timber_hearth.launch_codes'',
             example_log_entry\<lparr>discovered := True, discovered_loop := 1\<rparr>)]\<rparr>)"
  by (simp add: discover_entry_def add_entry_def example_menu_def example_log_entry_def
      KnowledgeProgress_init_def)

text \<open>
  Claim C6: for a registered entry that has not been discovered yet, of two calls of
  discover\_entry in succession the first returns true and unions the entry's knowledge
  grants into the knowledge set, the second returns false and changes no state.
\<close>

theorem discover_entry_twice:
  assumes "map_of (all_entries km) eid = Some e"
    and "entry_id e \<notin> entries_discovered (progress km)"
  shows "\<exists>km1. discover_entry km eid = (True, km1)
           \<and> knowledge_gained (progress km1) = knowledge_gained (progress km) \<union> set (knowledge_grants e)
           \<and> entries_discovered (progress km1) = insert (entry_id e) (entries_discovered (progress km))
           \<and> map_of (all_entries km1) eid = Some (e\<lparr>discovered := True, discovered_loop := current_loop (progress km)\<rparr>)
           \<and> discover_entry km1 eid = (False, km1)"
  using assms
  by (simp add: discover_entry_def add_entry_def map_of_dict_set dict_set_same)

theorem discover_entry_twice_witness:
  "map_of (all_entries example_menu) ''timber_hearth.launch_codes'' = Some example_log_entry
   \<and> entry_id example_log_entry \<notin> entries_discovered (progress example_menu)
   \<and> (\<exists>km1. discover_entry example_menu ''timber_hearth.launch_codes'' = (True, km1)
           \<and> knowledge_gained (progress km1) = {''launch_code_epistemic''}
           \<and> entries_discovered (progress km1) = {''timber_hearth.launch_codes''}
           \<and> discover_entry km1 ''timber_hearth.launch_codes'' = (False, km1))"
proof -
  have h1: "map_of (all_entries example_menu) ''timber_hearth.launch_codes'' = Some example_log_entry"
    by (simp add: example_menu_def)
  have h2: "entry_id example_log_entry \<notin> entries_discovered (progress example_menu)"
    by (simp add: example_menu_def KnowledgeProgress_init_def)
  have k: "knowledge_gained (progress example_menu) \<union> set (knowledge_grants example_log_entry)
             = {''launch_code_epistemic''}"
    by (simp add: example_menu_def KnowledgeProgress_init_def example_log_entry_def)
  have d: "insert (entry_id example_log_entry) (entries_discovered (progress example_menu))
             = {''timber_hearth.launch_codes''}"
    by (simp add: example_menu_def KnowledgeProgress_init_def example_log_entry_def)
  from discover_entry_twice [OF h1 h2] k d h1 h2 show ?thesis
    by auto
qed

text \<open>
  Claim C4, as stated: every discovered entry is among the visible entries of the rumor
  mode, whatever its appears-after tokens. In the example the entry has been read, so it
  is discovered, but Hornfels has not been met: the list of visible entries is empty.
\<close>

theorem discovered_entry_hidden_by_appears_after:
  "fst (discover_entry example_menu ''timber_hearth.launch_codes'')
   \<and> map (\<lambda>e. (entry_id e, discovered e)) (map snd (all_entries example_menu_read))
        = [(''timber_hearth.launch_codes'', True)]
   \<and> get_visible_entries example_menu_read = []"
  unfolding example_menu_read_def discover_entry_example
  by (simp add: get_visible_entries_def should_entry_appear_def has_knowledge_def
        KnowledgeProgress_init_def example_log_entry_def)

text \<open>
  Claim C4, amended: every registered entry that is discovered and whose appears-after
  tokens are all in the knowledge set is among the visible entries of the rumor mode,
  whether or not its access requirements are met.
\<close>

theorem discovered_entry_visible:
  assumes "(eid, e) \<in> set (all_entries km)"
    and "discovered e"
    and "set (appears_after e) \<subseteq> knowledge_gained (progress km)"
  shows "e \<in> set (get_visible_entries km)"
  using assms
  by (force simp add: get_visible_entries_def should_entry_appear_def has_knowledge_def list_all_iff)

theorem discovered_entry_visible_witness:
  "(''timber_hearth.launch_codes'', example_log_entry\<lparr>discovered := True, discovered_loop := 1\<rparr>)
      \<in> set (all_entries (add_knowledge example_menu_read ''hornfels_met''))
   \<and> discovered (example_log_entry\<lparr>discovered := True, discovered_loop := 1\<rparr>)
   \<and> set (appears_after (example_log_entry\<lparr>discovered := True, discovered_loop := 1\<rparr>))
        \<subseteq> knowledge_gained (progress (add_knowledge example_menu_read ''hornfels_met''))
   \<and> example_log_entry\<lparr>discovered := True, discovered_loop := 1\<rparr>
        \<in> set (get_visible_entries (add_knowledge example_menu_read ''hornfels_met''))"
proof -
  have h1: "(''timber_hearth.launch_codes'', example_log_entry\<lparr>discovered := True, discovered_loop := 1\<rparr>)
      \<in> set (all_entries (add_knowledge example_menu_read ''hornfels_met''))"
    unfolding example_menu_read_def discover_entry_example
    by (simp add: add_knowledge_def)
  have h2: "discovered (example_log_entry\<lparr>discovered := True, discovered_loop := 1\<rparr>)"
    by simp
  have h3: "set (appears_after (example_log_entry\<lparr>discovered := True, discovered_loop := 1\<rparr>))
        \<subseteq> knowledge_gained (progress (add_knowledge example_menu_read ''hornfels_met''))"
    by (simp add: add_knowledge_def example_log_entry_def)
  from discovered_entry_visible [OF h1 h2 h3] h1 h2 h3 show ?thesis
    by blast
qed

section \<open>The quantum state roll\<close>

lemma random_choice_nth:
  "xs \<noteq> [] \<Longrightarrow> random_choice r xs = Inr (xs ! (r mod length xs)) \<and> xs ! (r mod length xs) \<in> set xs"
  by (simp add: random_choice_def randbelow_def)

lemma get_new_state_first: "get_new_state 0 r = Inr (1 + int (r mod 6))"
  by (simp add: get_new_state_def random_randint_def randbelow_def)

lemma valid_states_nonempty: "filter (\<lambda>s. s \<noteq> old) [1..6] \<noteq> []"
proof -
  have "(if old = 1 then 2 else 1) \<in> set (filter (\<lambda>s. s \<noteq> old) [1..6])"
    by simp
  then show ?thesis
    by (metis empty_iff list.set(1))
qed

lemma get_new_state_range:
  "\<exists>s. get_new_state old r = Inr s \<and> 1 \<le> s \<and> s \<le> 6 \<and> (old \<noteq> 0 \<longrightarrow> s \<noteq> old)"
proof (cases "old = 0")
  case True
  have "r mod 6 < 6" by simp
  then show ?thesis using True by (simp add: get_new_state_first)
next
  case False
  let ?xs = "filter (\<lambda>s. s \<noteq> old) [1..6]"
  from random_choice_nth [OF valid_states_nonempty, of r old]
  have eq: "random_choice r ?xs = Inr (?xs ! (r mod length ?xs))"
    and mem: "?xs ! (r mod length ?xs) \<in> set ?xs"
    by blast+
  from mem have "1 \<le> ?xs ! (r mod length ?xs) \<and> ?xs ! (r mod length ?xs) \<le> 6
                 \<and> ?xs ! (r mod length ?xs) \<noteq> old"
    by simp
  with eq False show ?thesis
    by (simp add: get_new_state_def)
qed

lemma valid_states_five:
  assumes "1 \<le> old" and "old \<le> 6"
  shows "length (filter (\<lambda>s. s \<noteq> old) [1..6]) = 5"
proof -
  from assms have "old = 1 \<or> old = 2 \<or> old = 3 \<or> old = 4 \<or> old = 5 \<or> old = 6"
    by arith
  then show ?thesis
    by (elim disjE) (simp_all add: upto_rec1)
qed

lemma get_new_state_uniform_first:
  assumes "1 \<le> t" and "t \<le> 6"
  shows "\<exists>!k. k < 6 \<and> get_new_state 0 k = Inr t"
proof
  show "nat (t - 1) < 6 \<and> get_new_state 0 (nat (t - 1)) = Inr t"
    using assms by (simp add: get_new_state_first)
next
  fix k
  assume "k < 6 \<and> get_new_state 0 k = Inr t"
  then have k: "k < 6" and "get_new_state 0 k = Inr t"
    by blast+
  then have "1 + int (k mod 6) = t"
    by (simp add: get_new_state_first)
  with k show "k = nat (t - 1)"
    by auto
qed

lemma get_new_state_uniform_next:
  assumes "1 \<le> old" and "old \<le> 6" and "1 \<le> t" and "t \<le> 6" and "t \<noteq> old"
  shows "\<exists>!k. k < 5 \<and> get_new_state old k = Inr t"
proof -
  let ?xs = "filter (\<lambda>s. s \<noteq> old) [1..6]"
  have len: "length ?xs = 5"
    using assms(1,2) by (rule valid_states_five)
  have "distinct ?xs" by simp
  moreover have "t \<in> set ?xs" using assms by simp
  ultimately have ex1: "\<exists>!k. k < length ?xs \<and> ?xs ! k = t"
    by (rule distinct_Ex1)
  have draw: "get_new_state old k = Inr (?xs ! k)" if "k < 5" for k
    using that assms(1) len random_choice_nth [OF valid_states_nonempty, of k old]
    by (simp add: get_new_state_def)
  from ex1 len draw show ?thesis
    by (metis (no_types, lifting) Inr_inject)
qed

lemma roll_entry_twice:
  "\<exists>s1 s2. roll_entry r1 fid states = Inr (states(fid \<mapsto> s1))
        \<and> roll_entry r2 fid (states(fid \<mapsto> s1)) = Inr (states(fid \<mapsto> s2))
        \<and> 1 \<le> s1 \<and> s1 \<le> 6 \<and> 1 \<le> s2 \<and> s2 \<le> 6 \<and> s2 \<noteq> s1"
proof -
  obtain s1 where s1: "get_new_state (get_default (states fid) 0) r1 = Inr s1" "1 \<le> s1" "s1 \<le> 6"
    using get_new_state_range by blast
  obtain s2 where s2: "get_new_state s1 r2 = Inr s2" "1 \<le> s2" "s2 \<le> 6" "s1 \<noteq> 0 \<longrightarrow> s2 \<noteq> s1"
    using get_new_state_range by blast
  from s1 have a: "roll_entry r1 fid states = Inr (states(fid \<mapsto> s1))"
    by (simp add: roll_entry_def)
  from s2 have b: "roll_entry r2 fid (states(fid \<mapsto> s1)) = Inr (states(fid \<mapsto> s2))"
    by (simp add: roll_entry_def get_default_def)
  from s1 s2 have "s2 \<noteq> s1" by auto
  with a b s1 s2 show ?thesis by blast
qed

text \<open>
  Claim C7: every state roll returns a value from 1 to 6; from the state 0 each of the six
  values is the result of exactly one of the six equally likely draws; from a state in 1
  to 6 the new state differs from it, and each of the five other values is the result of
  exactly one of the five equally likely draws; so two rolls of the same entry in a row,
  each starting from the state the previous one stored, never store the same state.
\<close>

theorem state_roll_never_repeats:
  "(\<exists>s. get_new_state old r = Inr s \<and> 1 \<le> s \<and> s \<le> 6 \<and> (old \<noteq> 0 \<longrightarrow> s \<noteq> old))
   \<and> (1 \<le> t \<and> t \<le> 6 \<longrightarrow> (\<exists>!k. k < 6 \<and> get_new_state 0 k = Inr t))
   \<and> (1 \<le> old \<and> old \<le> 6 \<and> 1 \<le> t \<and> t \<le> 6 \<and> t \<noteq> old
        \<longrightarrow> (\<exists>!k. k < 5 \<and> get_new_state old k = Inr t))
   \<and> (\<exists>s1 s2. roll_entry r1 fid states = Inr (states(fid \<mapsto> s1))
        \<and> roll_entry r2 fid (states(fid \<mapsto> s1)) = Inr (states(fid \<mapsto> s2))
        \<and> 1 \<le> s1 \<and> s1 \<le> 6 \<and> 1 \<le> s2 \<and> s2 \<le> 6 \<and> s2 \<noteq> s1)"
  using get_new_state_range [of old r] get_new_state_uniform_first [of t]
    get_new_state_uniform_next [of old t] roll_entry_twice [of r1 fid states r2]
  by blast

theorem state_roll_never_repeats_witness:
  "(3::int) \<noteq> 0 \<and> 1 \<le> (3::int) \<and> (3::int) \<le> 6 \<and> 1 \<le> (5::int) \<and> (5::int) \<le> 6 \<and> (5::int) \<noteq> 3
   \<and> (\<exists>s. get_new_state 3 4 = Inr s \<and> 1 \<le> s \<and> s \<le> 6 \<and> s \<noteq> 3)
   \<and> (\<exists>!k. k < 6 \<and> get_new_state 0 k = Inr 5)
   \<and> (\<exists>!k. k < 5 \<and> get_new_state 3 k = Inr 5)
   \<and> (\<exists>s1 s2. roll_entry 4 ''brittle_hollow.quantum_research_notes'' [''brittle_hollow.quantum_research_notes'' \<mapsto> 3]
                  = Inr ([''brittle_hollow.quantum_research_notes'' \<mapsto> 3](''brittle_hollow.quantum_research_notes'' \<mapsto> s1))
        \<and> roll_entry 7 ''brittle_hollow.quantum_research_notes''
             ([''brittle_hollow.quantum_research_notes'' \<mapsto> 3](''brittle_hollow.quantum_research_notes'' \<mapsto> s1))
             = Inr ([''brittle_hollow.quantum_research_notes'' \<mapsto> 3](''brittle_hollow.quantum_research_notes'' \<mapsto> s2))
        \<and> 1 \<le> s1 \<and> s1 \<le> 6 \<and> 1 \<le> s2 \<and> s2 \<le> 6 \<and> s2 \<noteq> s1)"
  using state_roll_never_repeats
    [of 3 4 5 4 "''brittle_hollow.quantum_research_notes''" "[''brittle_hollow.quantum_research_notes'' \<mapsto> 3]" 7]
  by simp

section \<open>Movement between points of interest\<close>

text \<open>
  Claim C8: for every POI id that is not in the connection list of the current POI,
  move\_to\_poi returns the failure \<open>(False, 0, message)\<close> and the whole spatial state
  (current POI, current location, visited and discovered POI sets, ship flags) is as it was.
\<close>

theorem move_to_poi_invalid_target:
  assumes "t \<notin> set (get_default (connections (get_current_poi_data ps)) [])"
  shows "move_to_poi ps t = Inr ((False, 0, ''You can't reach '' @ t @ '' from here.''), ps)"
  using assms by (simp add: move_to_poi_def Let_def)

theorem move_to_poi_invalid_target_witness:
  "''quantum_cavern'' \<notin> set (get_default (connections (get_current_poi_data example_poi_system)) [])
   \<and> move_to_poi example_poi_system ''quantum_cavern'' =
        Inr ((False, 0, ''You can't reach quantum_cavern from here.''), example_poi_system)"
proof -
  have h: "''quantum_cavern'' \<notin> set (get_default (connections (get_current_poi_data example_poi_system)) [])"
    by (simp add: get_current_poi_data_def example_poi_system_def quantum_world_def
          get_default_def empty_poi_data_def)
  from move_to_poi_invalid_target [OF h] h show ?thesis
    by simp
qed

section \<open>The reset of the loop\<close>

lemma initialize_starting_position_home:
  assumes "map_of (locations (ps_location_data ps)) ''timber_hearth'' = Some home"
  shows "initialize_starting_position
           (ps\<lparr>current_location := ''timber_hearth'', in_ship := False, ship_flying := False\<rparr>) =
         Inr (ps\<lparr>current_location := ''timber_hearth'', in_ship := False, ship_flying := False,
                 current_poi := get_default (starting_poi home) ''village_center'',
                 discovered_pois :=
                   insert (full_id ''timber_hearth'' (get_default (starting_poi home) ''village_center''))
                     (discovered_pois ps),
                 visited_pois :=
                   insert (full_id ''timber_hearth'' (get_default (starting_poi home) ''village_center''))
                     (visited_pois ps)\<rparr>)"
  using assms
  by (simp add: initialize_starting_position_def subscript_def discover_poi_def Let_def)

text \<open>
  Claim C1: after the reset of the loop the action counter is zero, the flag of the
  mid-loop event is cleared, the loop counter has grown by exactly 1, the player is at the
  starting POI of the home location, both ship flags are false, the loop-local token
  cavern\_collapse\_witnessed is absent, and the set of discovered entries, the entry
  objects and every other knowledge token are as before the reset.
\<close>

theorem handle_supernova_resets_loop:
  assumes "map_of (locations (ps_location_data (poi_system orch))) ''timber_hearth'' = Some home"
  shows "\<exists>orch'. handle_supernova orch = Inr orch'
     \<and> current_actions (loop_manager orch') = 0
     \<and> \<not> cavern_has_collapsed (loop_manager orch')
     \<and> loop_count (loop_manager orch') = loop_count (loop_manager orch) + 1
     \<and> current_loop (progress (knowledge_menu orch')) = current_loop (progress (knowledge_menu orch)) + 1
     \<and> current_location (poi_system orch') = ''timber_hearth''
     \<and> current_poi (poi_system orch') = get_default (starting_poi home) ''village_center''
     \<and> \<not> in_ship (poi_system orch') \<and> \<not> ship_flying (poi_system orch')
     \<and> ''cavern_collapse_witnessed'' \<notin> knowledge_gained (progress (knowledge_menu orch'))
     \<and> knowledge_gained (progress (knowledge_menu orch')) =
         knowledge_gained (progress (knowledge_menu orch)) - {''cavern_collapse_witnessed''}
     \<and> entries_discovered (progress (knowledge_menu orch')) =
         entries_discovered (progress (knowledge_menu orch))
     \<and> all_entries (knowledge_menu orch') = all_entries (knowledge_menu orch)"
  using initialize_starting_position_home [OF assms]
  by (simp add: handle_supernova_def trigger_supernova_def increment_loop_def)

theorem handle_supernova_resets_loop_witness:
  "map_of (locations (ps_location_data (poi_system example_orchestrator))) ''timber_hearth''
     = Some (snd (hd (locations quantum_world)))
   \<and> (\<exists>orch'. handle_supernova example_orchestrator = Inr orch'
     \<and> current_actions (loop_manager orch') = 0
     \<and> \<not> cavern_has_collapsed (loop_manager orch')
     \<and> loop_count (loop_manager orch') = 2
     \<and> current_location (poi_system orch') = ''timber_hearth''
     \<and> current_poi (poi_system orch') = ''campfire''
     \<and> \<not> in_ship (poi_system orch') \<and> \<not> ship_flying (poi_system orch')
     \<and> knowledge_gained (progress (knowledge_menu orch')) = {''ship_operation''}
     \<and> entries_discovered (progress (knowledge_menu orch')) = {}
     \<and> all_entries (knowledge_menu orch') = [(''brittle_hollow.quantum_research_notes'', research_notes_entry)])"
proof -
  have h: "map_of (locations (ps_location_data (poi_system example_orchestrator))) ''timber_hearth''
     = Some (snd (hd (locations quantum_world)))"
    by (simp add: example_orchestrator_def example_poi_system_def quantum_world_def)
  have v: "loop_count (loop_manager example_orchestrator) + 1 = 2"
    "get_default (starting_poi (snd (hd (locations quantum_world)))) ''village_center'' = ''campfire''"
    "knowledge_gained (progress (knowledge_menu example_orchestrator)) - {''cavern_collapse_witnessed''}
       = {''ship_operation''}"
    "entries_discovered (progress (knowledge_menu example_orchestrator)) = {}"
    "all_entries (knowledge_menu example_orchestrator) = [(''brittle_hollow.quantum_research_notes'', research_notes_entry)]"
    by (auto simp add: example_orchestrator_def LoopManager_init_def quantum_world_def
          get_default_def quantum_menu_def KnowledgeProgress_init_def)
  from handle_supernova_resets_loop [OF h] h show ?thesis
    unfolding v by blast
qed

text \<open>
  Claim C10: the reset of the loop leaves the quantum state of every entry as it was;
  the map of the quantum states is neither cleared nor re-rolled, while the quantum
  navigator is back at the platform.
\<close>

theorem handle_supernova_keeps_quantum_states:
  assumes "map_of (locations (ps_location_data (poi_system orch))) ''timber_hearth'' = Some home"
  shows "\<exists>orch'. handle_supernova orch = Inr orch'
     \<and> quantum_states (quantum_system orch') = quantum_states (quantum_system orch)
     \<and> (\<forall>fid. get_entry_state (quantum_system orch') fid = get_entry_state (quantum_system orch) fid)
     \<and> nav_current_location (quantum_navigator orch') = ''platform''"
  using initialize_starting_position_home [OF assms]
  by (simp add: handle_supernova_def trigger_supernova_def get_entry_state_def reset_navigation_def)

theorem handle_supernova_keeps_quantum_states_witness:
  "map_of (locations (ps_location_data (poi_system example_orchestrator))) ''timber_hearth''
     = Some (snd (hd (locations quantum_world)))
   \<and> (\<exists>orch'. handle_supernova example_orchestrator = Inr orch'
     \<and> get_entry_state (quantum_system orch') ''brittle_hollow.quantum_research_notes'' = 3
     \<and> nav_current_location (quantum_navigator orch') = ''platform'')"
proof -
  have h: "map_of (locations (ps_location_data (poi_system example_orchestrator))) ''timber_hearth''
     = Some (snd (hd (locations quantum_world)))"
    by (simp add: example_orchestrator_def example_poi_system_def quantum_world_def)
  have v: "get_entry_state (quantum_system example_orchestrator) ''brittle_hollow.quantum_research_notes'' = 3"
    by (simp add: example_orchestrator_def get_entry_state_def get_default_def)
  from handle_supernova_keeps_quantum_states [OF h] h v show ?thesis
    by metis
qed

section \<open>Reading a quantum entry\<close>

lemma scramble_text_unstable:
  "state \<noteq> 6 \<Longrightarrow> scramble_text R content state = ContentLoader_scramble_text R content state"
  by (simp add: scramble_text_def ContentLoader_scramble_text_def)

lemma fold_add_knowledge:
  "fold (\<lambda>knowledge km. add_knowledge km knowledge) ks km =
     km\<lparr>progress := (progress km)\<lparr>knowledge_gained := knowledge_gained (progress km) \<union> set ks\<rparr>\<rparr>"
proof (induction ks arbitrary: km)
  case Nil
  show ?case by simp
next
  case (Cons k ks)
  have "insert k (knowledge_gained (progress km)) \<union> set ks
          = knowledge_gained (progress km) \<union> insert k (set ks)"
    by blast
  with Cons show ?case
    by (simp add: add_knowledge_def)
qed

lemma discover_entry_new:
  assumes "map_of (all_entries km) eid = Some e"
    and "entry_id e \<notin> entries_discovered (progress km)"
  shows "discover_entry km eid =
     (True,
      km\<lparr>progress := (progress km)
            \<lparr>entries_discovered := insert (entry_id e) (entries_discovered (progress km)),
             knowledge_gained := knowledge_gained (progress km) \<union> set (knowledge_grants e),
             new_entries_since_last_view := new_entries_since_last_view (progress km) + 1\<rparr>,
         all_entries :=
           dict_set eid (e\<lparr>discovered := True, discovered_loop := current_loop (progress km)\<rparr>)
             (all_entries km)\<rparr>)"
  using assms by (simp add: discover_entry_def add_entry_def)

lemma discover_entry_again:
  assumes "map_of (all_entries km) eid = Some e"
    and "entry_id e \<in> entries_discovered (progress km)"
  shows "discover_entry km eid = (False, km)"
  using assms by (simp add: discover_entry_def add_entry_def dict_set_same)

lemma read_entry_unstable:
  assumes "ed_quantum (get_entry_raw_data orch (full_id loc ent)) = Some True"
    and "ed_title (get_entry_raw_data orch (full_id loc ent)) = Some ttl"
    and "map_of content_map (full_id loc ent) = Some file_name"
    and "content_files orch file_name = Some content"
    and "get_entry_state (quantum_system orch) (full_id loc ent) = s"
    and "s \<noteq> 6"
  shows "read_entry R orch loc ent = Inr (DisplayContent (scramble_text R content s), orch)"
  using assms
  by (simp add: read_entry_def Let_def get_default_def load_and_display_entry_def subscript_def
        scramble_text_unstable)

lemma read_entry_stable_new:
  assumes "ed_quantum (get_entry_raw_data orch (full_id loc ent)) = Some True"
    and "ed_title (get_entry_raw_data orch (full_id loc ent)) = Some ttl"
    and "map_of content_map (full_id loc ent) = Some file_name"
    and "content_files orch file_name = Some content"
    and "get_entry_state (quantum_system orch) (full_id loc ent) = 6"
    and "map_of (all_entries (knowledge_menu orch)) (full_id loc ent) = Some e"
    and "entry_id e \<notin> entries_discovered (progress (knowledge_menu orch))"
  shows "read_entry R orch loc ent =
     Inr (DisplayContent content,
          orch\<lparr>knowledge_menu :=
            (knowledge_menu orch)
              \<lparr>progress := (progress (knowledge_menu orch))
                 \<lparr>entries_discovered :=
                    insert (entry_id e) (entries_discovered (progress (knowledge_menu orch))),
                  knowledge_gained :=
                    knowledge_gained (progress (knowledge_menu orch)) \<union> set (knowledge_grants e)
                      \<union> set (get_default (ed_knowledge_grants (get_entry_raw_data orch (full_id loc ent))) []),
                  new_entries_since_last_view :=
                    new_entries_since_last_view (progress (knowledge_menu orch)) + 1\<rparr>,
               all_entries :=
                 dict_set (full_id loc ent)
                   (e\<lparr>discovered := True,
                      discovered_loop := current_loop (progress (knowledge_menu orch))\<rparr>)
                   (all_entries (knowledge_menu orch))\<rparr>\<rparr>)"
  using assms
  by (simp add: read_entry_def Let_def discover_entry_new [OF assms(6,7)] fold_add_knowledge
        notify_and_display_def load_and_display_entry_def subscript_def get_default_def)

lemma read_entry_stable_again:
  assumes "ed_quantum (get_entry_raw_data orch (full_id loc ent)) = Some True"
    and "ed_title (get_entry_raw_data orch (full_id loc ent)) = Some ttl"
    and "map_of content_map (full_id loc ent) = Some file_name"
    and "content_files orch file_name = Some content"
    and "get_entry_state (quantum_system orch) (full_id loc ent) = 6"
    and "map_of (all_entries (knowledge_menu orch)) (full_id loc ent) = Some e"
    and "entry_id e \<in> entries_discovered (progress (knowledge_menu orch))"
  shows "read_entry R orch loc ent = Inr (DisplayContent content, orch)"
  using assms
  by (simp add: read_entry_def Let_def discover_entry_again [OF assms(6,7)]
        notify_and_display_def load_and_display_entry_def subscript_def get_default_def)

lemma get_entry_raw_data_knowledge_menu:
  "get_entry_raw_data (orch\<lparr>knowledge_menu := km\<rparr>) fid = get_entry_raw_data orch fid"
  by (simp add: get_entry_raw_data_def split: list.splits)

text \<open>
  Claim C9: for a quantum entry that the table of the content loader lists and whose
  content file exists, reading it in a state from 1 to 5 displays the scrambled content,
  which is the function \<open>scramble_text\<close> of the content and the state alone, and changes
  no state, so the entry is not discovered and a second read displays the same text;
  reading it in state 6 displays the original content and discovers the entry, and a
  further read in state 6 displays the same content and changes nothing more.
\<close>

theorem read_entry_quantum:
  assumes "ed_quantum (get_entry_raw_data orch (full_id loc ent)) = Some True"
    and "ed_title (get_entry_raw_data orch (full_id loc ent)) = Some ttl"
    and "map_of content_map (full_id loc ent) = Some file_name"
    and "content_files orch file_name = Some content"
  shows "(1 \<le> s \<and> s \<le> 5 \<and> get_entry_state (quantum_system orch) (full_id loc ent) = s \<longrightarrow>
            read_entry R orch loc ent = Inr (DisplayContent (scramble_text R content s), orch))
       \<and> scramble_text R content 6 = content
       \<and> (get_entry_state (quantum_system orch) (full_id loc ent) = 6
            \<and> map_of (all_entries (knowledge_menu orch)) (full_id loc ent) = Some e
            \<and> entry_id e \<notin> entries_discovered (progress (knowledge_menu orch)) \<longrightarrow>
            (\<exists>orch1. read_entry R orch loc ent = Inr (DisplayContent content, orch1)
               \<and> entries_discovered (progress (knowledge_menu orch1)) =
                   insert (entry_id e) (entries_discovered (progress (knowledge_menu orch)))
               \<and> new_entries_since_last_view (progress (knowledge_menu orch1)) =
                   new_entries_since_last_view (progress (knowledge_menu orch)) + 1
               \<and> map_of (all_entries (knowledge_menu orch1)) (full_id loc ent) =
                   Some (e\<lparr>discovered := True,
                           discovered_loop := current_loop (progress (knowledge_menu orch))\<rparr>)
               \<and> read_entry R orch1 loc ent = Inr (DisplayContent content, orch1)))"
proof (intro conjI impI)
  assume "1 \<le> s \<and> s \<le> 5 \<and> get_entry_state (quantum_system orch) (full_id loc ent) = s"
  then have "get_entry_state (quantum_system orch) (full_id loc ent) = s" and "s \<noteq> 6"
    by auto
  with assms show "read_entry R orch loc ent = Inr (DisplayContent (scramble_text R content s), orch)"
    by (rule read_entry_unstable)
next
  show "scramble_text R content 6 = content"
    by (simp add: scramble_text_def)
next
  assume "get_entry_state (quantum_system orch) (full_id loc ent) = 6
            \<and> map_of (all_entries (knowledge_menu orch)) (full_id loc ent) = Some e
            \<and> entry_id e \<notin> entries_discovered (progress (knowledge_menu orch))"
  then have six: "get_entry_state (quantum_system orch) (full_id loc ent) = 6"
    and reg: "map_of (all_entries (knowledge_menu orch)) (full_id loc ent) = Some e"
    and new: "entry_id e \<notin> entries_discovered (progress (knowledge_menu orch))"
    by blast+
  let ?e' = "e\<lparr>discovered := True, discovered_loop := current_loop (progress (knowledge_menu orch))\<rparr>"
  let ?km1 = "(knowledge_menu orch)
              \<lparr>progress := (progress (knowledge_menu orch))
                 \<lparr>entries_discovered :=
                    insert (entry_id e) (entries_discovered (progress (knowledge_menu orch))),
                  knowledge_gained :=
                    knowledge_gained (progress (knowledge_menu orch)) \<union> set (knowledge_grants e)
                      \<union> set (get_default (ed_knowledge_grants (get_entry_raw_data orch (full_id loc ent))) []),
                  new_entries_since_last_view :=
                    new_entries_since_last_view (progress (knowledge_menu orch)) + 1\<rparr>,
               all_entries := dict_set (full_id loc ent) ?e' (all_entries (knowledge_menu orch))\<rparr>"
  let ?orch1 = "orch\<lparr>knowledge_menu := ?km1\<rparr>"
  have first: "read_entry R orch loc ent = Inr (DisplayContent content, ?orch1)"
    using assms six reg new by (rule read_entry_stable_new)
  have q1: "ed_quantum (get_entry_raw_data ?orch1 (full_id loc ent)) = Some True"
    and t1: "ed_title (get_entry_raw_data ?orch1 (full_id loc ent)) = Some ttl"
    using assms(1,2) by (simp_all only: get_entry_raw_data_knowledge_menu)
  have c1: "content_files ?orch1 file_name = Some content"
    using assms(4) by simp
  have s1: "get_entry_state (quantum_system ?orch1) (full_id loc ent) = 6"
    using six by simp
  have m1: "map_of (all_entries (knowledge_menu ?orch1)) (full_id loc ent) = Some ?e'"
    by (simp add: map_of_dict_set)
  have d1: "entry_id ?e' \<in> entries_discovered (progress (knowledge_menu ?orch1))"
    by simp
  have again: "read_entry R ?orch1 loc ent = Inr (DisplayContent content, ?orch1)"
    using q1 t1 assms(3) c1 s1 m1 d1 by (rule read_entry_stable_again)
  have "entries_discovered (progress (knowledge_menu ?orch1)) =
          insert (entry_id e) (entries_discovered (progress (knowledge_menu orch)))"
    and "new_entries_since_last_view (progress (knowledge_menu ?orch1)) =
          new_entries_since_last_view (progress (knowledge_menu orch)) + 1"
    by simp_all
  with first again m1
  show "\<exists>orch1. read_entry R orch loc ent = Inr (DisplayContent content, orch1)
               \<and> entries_discovered (progress (knowledge_menu orch1)) =
                   insert (entry_id e) (entries_discovered (progress (knowledge_menu orch)))
               \<and> new_entries_since_last_view (progress (knowledge_menu orch1)) =
                   new_entries_since_last_view (progress (knowledge_menu orch)) + 1
               \<and> map_of (all_entries (knowledge_menu orch1)) (full_id loc ent) = Some ?e'
               \<and> read_entry R orch1 loc ent = Inr (DisplayContent content, orch1)"
    by blast
qed

lemma example_raw_data:
  "get_entry_raw_data example_orchestrator (full_id ''brittle_hollow'' ''quantum_research_notes'') = research_notes"
  "get_entry_raw_data example_orchestrator_stable (full_id ''brittle_hollow'' ''quantum_research_notes'') = research_notes"
  by (simp_all add: get_entry_raw_data_def full_id_def example_orchestrator_stable_def
        example_orchestrator_def quantum_world_def get_default_def)

lemma example_scrambled:
  "scramble_text example_random (''the moon moves'' @ [CHR 0x0A] @ ''when not observed'') 3 =
     ''the moon moves'' @ [CHR 0x0A] @ ''not observed when''"
  by (simp add: scramble_text_def example_random_def py_strip_def py_split_def is_space_def
        rotate_def numeral_eq_Suc)

theorem read_entry_quantum_witness:
  "ed_quantum (get_entry_raw_data example_orchestrator (full_id ''brittle_hollow'' ''quantum_research_notes'')) = Some True
   \<and> map_of content_map (full_id ''brittle_hollow'' ''quantum_research_notes'') =
        Some ''brittle_hollow_quantum_research_notes.md''
   \<and> content_files example_orchestrator ''brittle_hollow_quantum_research_notes.md'' =
        Some (''the moon moves'' @ [CHR 0x0A] @ ''when not observed'')
   \<and> get_entry_state (quantum_system example_orchestrator) (full_id ''brittle_hollow'' ''quantum_research_notes'') = 3
   \<and> read_entry example_random example_orchestrator ''brittle_hollow'' ''quantum_research_notes'' =
        Inr (DisplayContent (''the moon moves'' @ [CHR 0x0A] @ ''not observed when''), example_orchestrator)
   \<and> get_entry_state (quantum_system example_orchestrator_stable) (full_id ''brittle_hollow'' ''quantum_research_notes'') = 6
   \<and> map_of (all_entries (knowledge_menu example_orchestrator_stable)) (full_id ''brittle_hollow'' ''quantum_research_notes'') =
        Some research_notes_entry
   \<and> entry_id research_notes_entry \<notin> entries_discovered (progress (knowledge_menu example_orchestrator_stable))
   \<and> (\<exists>orch1. read_entry example_random example_orchestrator_stable ''brittle_hollow'' ''quantum_research_notes'' =
                  Inr (DisplayContent (''the moon moves'' @ [CHR 0x0A] @ ''when not observed''), orch1)
          \<and> entries_discovered (progress (knowledge_menu orch1)) = {''brittle_hollow.quantum_research_notes''}
          \<and> new_entries_since_last_view (progress (knowledge_menu orch1)) = 1
          \<and> read_entry example_random orch1 ''brittle_hollow'' ''quantum_research_notes'' =
               Inr (DisplayContent (''the moon moves'' @ [CHR 0x0A] @ ''when not observed''), orch1))"
proof -
  let ?c = "''the moon moves'' @ [CHR 0x0A] @ ''when not observed''"
  have q: "ed_quantum (get_entry_raw_data example_orchestrator (full_id ''brittle_hollow'' ''quantum_research_notes'')) = Some True"
    and t: "ed_title (get_entry_raw_data example_orchestrator (full_id ''brittle_hollow'' ''quantum_research_notes''))
              = Some ''Quantum Research Notes''"
    and q6: "ed_quantum (get_entry_raw_data example_orchestrator_stable (full_id ''brittle_hollow'' ''quantum_research_notes'')) = Some True"
    and t6: "ed_title (get_entry_raw_data example_orchestrator_stable (full_id ''brittle_hollow'' ''quantum_research_notes''))
              = Some ''Quantum Research Notes''"
    by (simp_all add: example_raw_data research_notes_def)
  have f: "map_of content_map (full_id ''brittle_hollow'' ''quantum_research_notes'') =
        Some ''brittle_hollow_quantum_research_notes.md''"
    by (simp add: content_map_def full_id_def)
  have c: "content_files example_orchestrator ''brittle_hollow_quantum_research_notes.md'' = Some ?c"
    and c6: "content_files example_orchestrator_stable ''brittle_hollow_quantum_research_notes.md'' = Some ?c"
    by (simp_all add: example_orchestrator_stable_def example_orchestrator_def)
  have m6: "map_of (all_entries (knowledge_menu example_orchestrator_stable)) (full_id ''brittle_hollow'' ''quantum_research_notes'') =
        Some research_notes_entry"
    by (simp add: example_orchestrator_stable_def example_orchestrator_def quantum_menu_def full_id_def)
  have d6: "entry_id research_notes_entry \<notin> entries_discovered (progress (knowledge_menu example_orchestrator_stable))"
    by (simp add: example_orchestrator_stable_def example_orchestrator_def quantum_menu_def
          KnowledgeProgress_init_def)
  have s3: "get_entry_state (quantum_system example_orchestrator) (full_id ''brittle_hollow'' ''quantum_research_notes'') = 3"
    and s6: "get_entry_state (quantum_system example_orchestrator_stable) (full_id ''brittle_hollow'' ''quantum_research_notes'') = 6"
    by (simp_all add: example_orchestrator_stable_def example_orchestrator_def get_entry_state_def
          get_default_def full_id_def)
  have v: "insert (entry_id research_notes_entry)
             (entries_discovered (progress (knowledge_menu example_orchestrator_stable)))
            = {''brittle_hollow.quantum_research_notes''}"
    "new_entries_since_last_view (progress (knowledge_menu example_orchestrator_stable)) + 1 = 1"
    by (simp_all add: example_orchestrator_stable_def example_orchestrator_def quantum_menu_def
          KnowledgeProgress_init_def research_notes_entry_def)
  have a: "read_entry example_random example_orchestrator ''brittle_hollow'' ''quantum_research_notes'' =
        Inr (DisplayContent (''the moon moves'' @ [CHR 0x0A] @ ''not observed when''), example_orchestrator)"
    using read_entry_quantum [OF q t f c, of 3 example_random] s3
    by (simp only: example_scrambled) simp
  have b: "\<exists>orch1. read_entry example_random example_orchestrator_stable ''brittle_hollow'' ''quantum_research_notes'' =
                  Inr (DisplayContent ?c, orch1)
          \<and> entries_discovered (progress (knowledge_menu orch1)) = {''brittle_hollow.quantum_research_notes''}
          \<and> new_entries_since_last_view (progress (knowledge_menu orch1)) = 1
          \<and> read_entry example_random orch1 ''brittle_hollow'' ''quantum_research_notes'' = Inr (DisplayContent ?c, orch1)"
    using read_entry_quantum [OF q6 t6 f c6, of 6 example_random research_notes_entry] s6 m6 d6
    unfolding v by blast
  from q f c s3 a s6 m6 d6 b show ?thesis
    by blast
qed

section \<open>The second small world runs\<close>

lemma register_entries_quantum_world:
  "register_entries KnowledgeMenu_init quantum_world =
     Inr (quantum_menu\<lparr>progress := KnowledgeProgress_init\<rparr>)"
  by (simp add: register_entries_def register_location_def register_entry_def
      quantum_world_def research_notes_def quantum_menu_def research_notes_entry_def
      subscript_def get_default_def full_id_def empty_entry_data_def Let_def
      KnowledgeMenu_init_def)

lemma POISystem_init_quantum_world:
  "POISystem_init quantum_world =
     Inr \<lparr>ps_location_data = quantum_world, current_location = ''timber_hearth'',
          current_poi = ''campfire'', in_ship = False, ship_flying = False,
          discovered_pois = {''timber_hearth.campfire''},
          visited_pois = {''timber_hearth.campfire''}\<rparr>"
  by (simp add: POISystem_init_def initialize_starting_position_def subscript_def
      discover_poi_def full_id_def get_default_def Let_def quantum_world_def)

lemma quantum_entries_example:
  "get_all_quantum_entries_at_poi example_poi_system =
     Inr [(''brittle_hollow.quantum_research_notes'', research_notes)]"
  by (simp add: get_all_quantum_entries_at_poi_def example_poi_system_def quantum_world_def
      empty_location_info_def empty_poi_data_def subscript_def get_default_def full_id_def
      research_notes_def empty_entry_data_def)

lemma quantum_observation_example:
  "quantum_observation (quantum_system example_orchestrator) example_poi_system (\<lambda>i. 2) =
     Inr (False, \<lparr>qs_eyes_closed = False,
                  quantum_states = [''brittle_hollow.quantum_research_notes'' \<mapsto> 4]\<rparr>)"
  by (simp add: quantum_observation_def quantum_entries_example example_orchestrator_def
      roll_entry_def get_new_state_def random_choice_def randbelow_def get_default_def
      upto_rec1)

section \<open>Floats and the placeholder, on examples\<close>

lemma round_double_tenth: "round_double (1 / 10) = 3602879701896397 / 36028797018963968"
  by code_simp

lemma completion_percentage_third:
  "get_completion_percentage (KnowledgeProgress_init\<lparr>entries_discovered := {''a''}\<rparr>) 3
     = 2345624805922133 / 70368744177664"
  by code_simp

lemma completion_ratio_below_threshold:
  "round_double (round_double (round_double (119 / 125) * 100) / 100) < round_double (952 / 1000)"
  by code_simp

lemma read_entry_unlisted:
  assumes "ed_quantum (get_entry_raw_data orch (full_id loc ent)) = Some True"
    and "map_of content_map (full_id loc ent) = None"
    and "get_entry_state (quantum_system orch) (full_id loc ent) \<noteq> 6"
  shows "read_entry R orch loc ent = Inr (DisplayPlaceholder, orch)"
  using assms
  by (simp add: read_entry_def Let_def get_default_def load_and_display_entry_def)

end
